theory Spec2Isabelle
  imports Main
begin

section \<open>JavaScript strings\<close>

text \<open>
  A JavaScript string is modelled as a \<^typ>\<open>string\<close>: a list of characters, each
  standing for one code unit below 256. The program tests characters only against
  ASCII ones (separators, digits, letters), so the functions below are the
  \<^verbatim>\<open>String.prototype\<close> methods the source calls, read on such strings.
\<close>

definition dquote :: char where
  "dquote = CHR 0x22"

definition newline :: char where
  "newline = CHR 0x0A"

definition startsWith :: "string \<Rightarrow> string \<Rightarrow> bool" where
  "startsWith s p = (take (length p) s = p)"

fun includesStr :: "string \<Rightarrow> string \<Rightarrow> bool" where
  "includesStr [] p = (p = [])"
| "includesStr (c # cs) p = (startsWith (c # cs) p \<or> includesStr cs p)"

text \<open>\<^verbatim>\<open>s.replace(/c/g, r)\<close> for a one-character pattern.\<close>

definition replaceAll :: "char \<Rightarrow> string \<Rightarrow> string \<Rightarrow> string" where
  "replaceAll c r s = concat (map (\<lambda>x. if x = c then r else [x]) s)"

text \<open>\<^verbatim>\<open>Array.prototype.join\<close>.\<close>

fun join :: "string \<Rightarrow> string list \<Rightarrow> string" where
  "join sep [] = []"
| "join sep [x] = x"
| "join sep (x # y # ys) = x @ sep @ join sep (y # ys)"

subsection \<open>Character classes and case\<close>

text \<open>
  The classes the source's regular expressions name: \<^verbatim>\<open>[a-z]\<close>, \<^verbatim>\<open>[A-Z]\<close>,
  \<^verbatim>\<open>\d\<close>, \<^verbatim>\<open>\w\<close>, and the white space that \<^verbatim>\<open>trim\<close> removes.
\<close>

definition asciiLower :: string where
  "asciiLower = ''abcdefghijklmnopqrstuvwxyz''"

definition asciiUpper :: string where
  "asciiUpper = ''ABCDEFGHIJKLMNOPQRSTUVWXYZ''"

definition isLower :: "char \<Rightarrow> bool" where
  "isLower c = (c \<in> set asciiLower)"

definition isUpper :: "char \<Rightarrow> bool" where
  "isUpper c = (c \<in> set asciiUpper)"

definition isDigit :: "char \<Rightarrow> bool" where
  "isDigit c = (c \<in> set ''0123456789'')"

definition isUpperOrDigit :: "char \<Rightarrow> bool" where
  "isUpperOrDigit c = (isUpper c \<or> isDigit c)"

definition isAlnum :: "char \<Rightarrow> bool" where
  "isAlnum c = (isUpper c \<or> isLower c \<or> isDigit c)"

definition isWordChar :: "char \<Rightarrow> bool" where
  "isWordChar c = (isAlnum c \<or> c = CHR ''_'')"

definition isSpace :: "char \<Rightarrow> bool" where
  "isSpace c = (c \<in> set [CHR 0x09, CHR 0x0A, CHR 0x0B, CHR 0x0C, CHR 0x0D, CHR 0x20, CHR 0xA0])"

text \<open>
  \<^verbatim>\<open>toUpperCase\<close>. The source applies it only to strings a pattern has matched as
  ASCII letters and digits, where it is the ASCII mapping.
\<close>

definition toUpperChar :: "char \<Rightarrow> char" where
  "toUpperChar c = (case map_of (zip asciiLower asciiUpper) c of Some u \<Rightarrow> u | None \<Rightarrow> c)"

definition toUpperCase :: "string \<Rightarrow> string" where
  "toUpperCase s = map toUpperChar s"

text \<open>A literal of a pattern under the \<^verbatim>\<open>i\<close> flag: equal up to ASCII case.\<close>

definition startsWithCI :: "string \<Rightarrow> string \<Rightarrow> bool" where
  "startsWithCI s p = (toUpperCase (take (length p) s) = toUpperCase p)"

fun includesCI :: "string \<Rightarrow> string \<Rightarrow> bool" where
  "includesCI [] p = (p = [])"
| "includesCI (c # cs) p = (startsWithCI (c # cs) p \<or> includesCI cs p)"

definition trim :: "string \<Rightarrow> string" where
  "trim s = rev (dropWhile isSpace (rev (dropWhile isSpace s)))"

subsection \<open>Values that may be absent\<close>

text \<open>
  An attribute read or a property gives a string, or \<^verbatim>\<open>null\<close> / \<^verbatim>\<open>undefined\<close>
  (\<open>None\<close>). \<open>truthy\<close> is JavaScript's test of such a value in a condition, and
  \<open>orElse a b\<close> is \<^verbatim>\<open>a || b\<close>.
\<close>

definition truthy :: "string option \<Rightarrow> bool" where
  "truthy v = (case v of None \<Rightarrow> False | Some s \<Rightarrow> s \<noteq> [])"

definition orElse :: "string option \<Rightarrow> string option \<Rightarrow> string option" where
  "orElse a b = (if truthy a then a else b)"

section \<open>The record\<close>

text \<open>The object literal built by \<^verbatim>\<open>extractItemData\<close>: five string fields.\<close>

record WishlistRecord =
  name :: string
  asin :: string
  price :: string
  url :: string
  image :: string

section \<open>The page: a DOM tree\<close>

text \<open>
  An element has a local name (lower case, as the HTML parser stores it), attributes
  and child nodes; a text node has its data. An \<open>element\<close> is a node together with
  its chain of ancestors, nearest first: what a DOM element reference gives access to
  (\<^verbatim>\<open>closest\<close>, and the ancestors a selector's descendant combinator looks at).
\<close>

type_synonym attribute = "string \<times> string"

datatype node =
    Element string "attribute list" "node list"
  | TextNode string

fun localName :: "node \<Rightarrow> string" where
  "localName (Element t as cs) = t"
| "localName (TextNode d) = []"

fun attributes :: "node \<Rightarrow> attribute list" where
  "attributes (Element t as cs) = as"
| "attributes (TextNode d) = []"

fun childNodes :: "node \<Rightarrow> node list" where
  "childNodes (Element t as cs) = cs"
| "childNodes (TextNode d) = []"

fun textContent :: "node \<Rightarrow> string" where
  "textContent (TextNode d) = d"
| "textContent (Element t as cs) = concat (map textContent cs)"

record element =
  self :: node
  ancestors :: "node list"

definition getAttribute :: "element \<Rightarrow> string \<Rightarrow> string option" where
  "getAttribute el a = map_of (attributes (self el)) a"

text \<open>The elements of a subtree in document order (the root first), each with its ancestors.\<close>

fun subtree :: "node list \<Rightarrow> node \<Rightarrow> element list" where
  "subtree anc (TextNode d) = []"
| "subtree anc (Element t as cs) =
     \<lparr>self = Element t as cs, ancestors = anc\<rparr>
       # concat (map (subtree (Element t as cs # anc)) cs)"

definition descendants :: "element \<Rightarrow> element list" where
  "descendants el = concat (map (subtree (self el # ancestors el)) (childNodes (self el)))"

subsection \<open>Selectors\<close>

text \<open>
  The CSS the source uses: type, id, class and attribute selectors, \<^verbatim>\<open>:not\<close>,
  compounds of them, the descendant combinator and the comma. A complex selector is
  the list of its compounds, the subject last; a selector list holds the alternatives.
\<close>

datatype simple_selector =
    TypeSel string
  | IdSel string
  | ClassSel string
  | AttrPresent string
  | AttrEquals string string
  | AttrContains string string
  | NotSel simple_selector

type_synonym compound_selector = "simple_selector list"
type_synonym complex_selector = "compound_selector list"
type_synonym selector = "complex_selector list"

text \<open>The class attribute's tokens: split on ASCII white space.\<close>

fun splitSpaces :: "string \<Rightarrow> string \<Rightarrow> string list" where
  "splitSpaces cur [] = (if cur = [] then [] else [rev cur])"
| "splitSpaces cur (c # cs) =
     (if c \<in> set [CHR 0x09, CHR 0x0A, CHR 0x0C, CHR 0x0D, CHR 0x20]
      then (if cur = [] then splitSpaces [] cs else rev cur # splitSpaces [] cs)
      else splitSpaces (c # cur) cs)"

definition classList :: "node \<Rightarrow> string list" where
  "classList n = (case map_of (attributes n) ''class'' of None \<Rightarrow> [] | Some v \<Rightarrow> splitSpaces [] v)"

fun matchesSimple :: "simple_selector \<Rightarrow> node \<Rightarrow> bool" where
  "matchesSimple (TypeSel t) n = (localName n = t)"
| "matchesSimple (IdSel i) n = (map_of (attributes n) ''id'' = Some i)"
| "matchesSimple (ClassSel c) n = (c \<in> set (classList n))"
| "matchesSimple (AttrPresent a) n = (map_of (attributes n) a \<noteq> None)"
| "matchesSimple (AttrEquals a v) n = (map_of (attributes n) a = Some v)"
| "matchesSimple (AttrContains a v) n =
     (case map_of (attributes n) a of None \<Rightarrow> False | Some x \<Rightarrow> v \<noteq> [] \<and> includesStr x v)"
| "matchesSimple (NotSel s) n = (\<not> matchesSimple s n)"

definition matchesCompound :: "compound_selector \<Rightarrow> node \<Rightarrow> bool" where
  "matchesCompound c n = list_all (\<lambda>s. matchesSimple s n) c"

text \<open>
  The compounds left of the subject, nearest first, against the ancestors, nearest
  first: each must match an ancestor further out than the one before.
\<close>

fun matchesAncestors :: "compound_selector list \<Rightarrow> node list \<Rightarrow> bool" where
  "matchesAncestors [] anc = True"
| "matchesAncestors (c # cs) [] = False"
| "matchesAncestors (c # cs) (a # anc) =
     ((matchesCompound c a \<and> matchesAncestors cs anc) \<or> matchesAncestors (c # cs) anc)"

definition matchesComplex :: "complex_selector \<Rightarrow> element \<Rightarrow> bool" where
  "matchesComplex sel el =
     (case rev sel of
        [] \<Rightarrow> False
      | c # cs \<Rightarrow> matchesCompound c (self el) \<and> matchesAncestors cs (ancestors el))"

definition matches :: "selector \<Rightarrow> element \<Rightarrow> bool" where
  "matches sel el = list_ex (\<lambda>c. matchesComplex c el) sel"

subsection \<open>Queries\<close>

definition firstOf :: "'a list \<Rightarrow> 'a option" where
  "firstOf xs = (case xs of [] \<Rightarrow> None | x # _ \<Rightarrow> Some x)"

text \<open>\<^verbatim>\<open>element.querySelector\<close>: the first descendant, in document order, that matches.\<close>

definition querySelector :: "element \<Rightarrow> selector \<Rightarrow> element option" where
  "querySelector el sel = firstOf (filter (matches sel) (descendants el))"

text \<open>\<^verbatim>\<open>element.closest\<close>: the element itself or its nearest ancestor that matches.\<close>

fun closestIn :: "selector \<Rightarrow> node list \<Rightarrow> element option" where
  "closestIn sel [] = None"
| "closestIn sel (n # anc) =
     (if matches sel \<lparr>self = n, ancestors = anc\<rparr> then Some \<lparr>self = n, ancestors = anc\<rparr>
      else closestIn sel anc)"

definition closest :: "element \<Rightarrow> selector \<Rightarrow> element option" where
  "closest el sel = closestIn sel (self el # ancestors el)"

text \<open>
  The document: the address of the page (\<^verbatim>\<open>window.location.href\<close>) and its tree. An
  HTML document always has its \<^verbatim>\<open>html\<close>, \<^verbatim>\<open>head\<close> and \<^verbatim>\<open>body\<close> elements, so
  the record holds what varies: the attributes of \<^verbatim>\<open>html\<close> and \<^verbatim>\<open>body\<close> and the
  children of \<^verbatim>\<open>head\<close> and \<^verbatim>\<open>body\<close>.
\<close>

record document =
  location :: string
  htmlAttributes :: "attribute list"
  headNodes :: "node list"
  bodyAttributes :: "attribute list"
  bodyNodes :: "node list"

definition body :: "document \<Rightarrow> node" where
  "body d = Element ''body'' (bodyAttributes d) (bodyNodes d)"

definition documentElement :: "document \<Rightarrow> node" where
  "documentElement d = Element ''html'' (htmlAttributes d) [Element ''head'' [] (headNodes d), body d]"

definition docQuerySelectorAll :: "document \<Rightarrow> selector \<Rightarrow> element list" where
  "docQuerySelectorAll d sel = filter (matches sel) (subtree [] (documentElement d))"

definition docQuerySelector :: "document \<Rightarrow> selector \<Rightarrow> element option" where
  "docQuerySelector d sel = firstOf (docQuerySelectorAll d sel)"

subsection \<open>What the browser computes\<close>

text \<open>
  The source reads four things that the browser, not the repository, computes. They
  are parameters of the model, so every theorem holds for any browser:
  \<^item> \<open>innerHTML\<close>: the serialisation of an element's children;
  \<^item> \<open>resolveURL\<close>: the URL parser applied to an attribute's value against the
    document's base address, giving the serialised URL, or \<open>None\<close> when parsing
    fails (the \<^verbatim>\<open>href\<close> and \<^verbatim>\<open>src\<close> properties are built on it);
  \<^item> \<open>newURL\<close>: \<^verbatim>\<open>new URL(s)\<close>, of which the source reads \<^verbatim>\<open>origin\<close> and
    \<^verbatim>\<open>pathname\<close>; \<open>None\<close> when the constructor throws;
  \<^item> \<open>jsonObjectKeys\<close>: \<^verbatim>\<open>Object.keys(JSON.parse(s))\<close>; \<open>None\<close> when either throws.
\<close>

record URL =
  origin :: string
  pathname :: string

record browser =
  innerHTML :: "node \<Rightarrow> string"
  resolveURL :: "string \<Rightarrow> string option"
  newURL :: "string \<Rightarrow> URL option"
  jsonObjectKeys :: "string \<Rightarrow> string list option"

text \<open>
  A property that reflects a URL attribute (\<^verbatim>\<open>a.href\<close>, \<^verbatim>\<open>img.src\<close>): the empty
  string without the attribute, the attribute's value when it does not parse, the
  serialised URL otherwise.
\<close>

definition reflectURL :: "browser \<Rightarrow> element \<Rightarrow> string \<Rightarrow> string" where
  "reflectURL br el a =
     (case getAttribute el a of
        None \<Rightarrow> []
      | Some v \<Rightarrow> (case resolveURL br v of None \<Rightarrow> v | Some s \<Rightarrow> s))"

text \<open>
  \<^verbatim>\<open>el.href\<close>: defined on the HTML elements that link (\<^verbatim>\<open>a\<close>, \<^verbatim>\<open>area\<close>,
  \<^verbatim>\<open>link\<close>), \<^verbatim>\<open>undefined\<close> on the others.
\<close>

definition hrefProperty :: "browser \<Rightarrow> element \<Rightarrow> string option" where
  "hrefProperty br el =
     (if localName (self el) \<in> set [''a'', ''area'', ''link''] then Some (reflectURL br el ''href'')
      else None)"

definition srcProperty :: "browser \<Rightarrow> element \<Rightarrow> string option" where
  "srcProperty br el =
     (if localName (self el) = ''img'' then Some (reflectURL br el ''src'') else None)"

section \<open>Content script: classifier and locator\<close>

subsection \<open>The selectors of the source\<close>

text \<open>\<^verbatim>\<open>#g-items li[data-item-id], #g-items [data-item-id]\<close>\<close>

definition strategy1 :: selector where
  "strategy1 =
     [[[IdSel ''g-items''], [TypeSel ''li'', AttrPresent ''data-item-id'']],
      [[IdSel ''g-items''], [AttrPresent ''data-item-id'']]]"

text \<open>\<^verbatim>\<open>[id*="item"] [data-item-id], [id*="item"] [data-asin]\<close>\<close>

definition strategy2 :: selector where
  "strategy2 =
     [[[AttrContains ''id'' ''item''], [AttrPresent ''data-item-id'']],
      [[AttrContains ''id'' ''item''], [AttrPresent ''data-asin'']]]"

text \<open>\<^verbatim>\<open>.a-unordered-list.a-nostyle.a-vertical li, .g-item-sortable\<close>\<close>

definition strategy3 :: selector where
  "strategy3 =
     [[[ClassSel ''a-unordered-list'', ClassSel ''a-nostyle'', ClassSel ''a-vertical''], [TypeSel ''li'']],
      [[ClassSel ''g-item-sortable'']]]"

text \<open>\<^verbatim>\<open>[data-asin]:not([data-asin=""])\<close>\<close>

definition strategy4 :: selector where
  "strategy4 = [[[AttrPresent ''data-asin'', NotSel (AttrEquals ''data-asin'' [])]]]"

text \<open>\<^verbatim>\<open>#g-items, [data-wishlist], .a-unordered-list.a-nostyle.a-vertical\<close>\<close>

definition wishlistStructure :: selector where
  "wishlistStructure =
     [[[IdSel ''g-items'']],
      [[AttrPresent ''data-wishlist'']],
      [[ClassSel ''a-unordered-list'', ClassSel ''a-nostyle'', ClassSel ''a-vertical'']]]"

text \<open>\<^verbatim>\<open>[data-action="sign-in"], .a-alert-error\<close>\<close>

definition signInPromptSelector :: selector where
  "signInPromptSelector = [[[AttrEquals ''data-action'' ''sign-in'']], [[ClassSel ''a-alert-error'']]]"

subsection \<open>\<^verbatim>\<open>findWishlistItems\<close>\<close>

definition findWishlistItems :: "document \<Rightarrow> element list" where
  "findWishlistItems d =
     (let items = docQuerySelectorAll d strategy1 in
      if length items > 0 then items
      else
        let items = docQuerySelectorAll d strategy2 in
        if length items > 0 then items
        else
          let items = docQuerySelectorAll d strategy3 in
          if length items > 0 then items
          else
            let items = docQuerySelectorAll d strategy4 in
            if length items > 0 then items
            else [])"

subsection \<open>\<^verbatim>\<open>isWishlistPage\<close>\<close>

definition isWishlistPage :: "document \<Rightarrow> bool" where
  "isWishlistPage d =
     (let hasWishlistInUrl = includesCI (location d) ''wishlist'';
          hasWishlistElements = docQuerySelector d wishlistStructure
      in hasWishlistInUrl \<or> hasWishlistElements \<noteq> None)"

subsection \<open>\<^verbatim>\<open>isPrivateWishlist\<close>\<close>

definition privateIndicators :: "string list" where
  "privateIndicators =
     [''This list is private'',
      ''This list is not available'',
      ''You don't have permission'',
      ''This list doesn't exist'',
      ''We're sorry. The Web address you entered is not a functioning page'',
      ''Sorry, we couldn't find that list'']"

text \<open>
  The two loops of the source return \<^verbatim>\<open>true\<close> at the first indicator, and at the
  first prompt, that passes their test; \<open>list_ex\<close> is that search.
\<close>

definition isPrivateWishlist :: "browser \<Rightarrow> document \<Rightarrow> bool" where
  "isPrivateWishlist br d =
     (let testItems = findWishlistItems d in
      if length testItems > 0 then False
      else
        let bodyText = textContent (body d);
            pageHTML = innerHTML br (body d)
        in
          if list_ex
               (\<lambda>indicator.
                  (includesStr bodyText indicator \<or> includesStr pageHTML indicator)
                  \<and> docQuerySelector d wishlistStructure = None)
               privateIndicators
          then True
          else if list_ex
               (\<lambda>prompt.
                  let promptText = textContent (self prompt)
                  in includesStr promptText ''view this list''
                     \<or> includesStr promptText ''access this list''
                     \<or> includesStr promptText ''private list'')
               (docQuerySelectorAll d signInPromptSelector)
          then True
          else False)"

section \<open>Content script: field extractor\<close>

subsection \<open>\<^verbatim>\<open>extractASINFromElement\<close>\<close>

text \<open>\<^verbatim>\<open>/^[A-Z0-9]{10}$/i\<close>\<close>

definition isAsinShape :: "string \<Rightarrow> bool" where
  "isAsinShape s = (length s = 10 \<and> list_all isAlnum s)"

text \<open>
  \<^verbatim>\<open>/\/(?:dp|gp\/product)\/([A-Z0-9]{10})(?:[/?#]|$)/i\<close>: \<open>productPathAt\<close> is the
  pattern anchored at the start of its input, \<open>productPathMatch\<close> the search for the
  leftmost match; both give the captured group.
\<close>

definition productPathAt :: "string \<Rightarrow> string option" where
  "productPathAt s =
     (let rest = (if startsWithCI s ''/dp/'' then Some (drop 4 s)
                  else if startsWithCI s ''/gp/product/'' then Some (drop 12 s)
                  else None)
      in case rest of
           None \<Rightarrow> None
         | Some r \<Rightarrow>
             let code = take 10 r; after = drop 10 r
             in if length code = 10 \<and> list_all isAlnum code
                   \<and> (after = [] \<or> hd after \<in> set ''/?#'')
                then Some code else None)"

fun productPathMatch :: "string \<Rightarrow> string option" where
  "productPathMatch [] = None"
| "productPathMatch (c # cs) =
     (case productPathAt (c # cs) of Some m \<Rightarrow> Some m | None \<Rightarrow> productPathMatch cs)"

text \<open>\<^verbatim>\<open>[data-asin]\<close> and \<^verbatim>\<open>a[href*="/dp/"], a[href*="/gp/product/"]\<close>\<close>

definition dataAsinSelector :: selector where
  "dataAsinSelector = [[[AttrPresent ''data-asin'']]]"

definition productLinkSelector :: selector where
  "productLinkSelector =
     [[[TypeSel ''a'', AttrContains ''href'' ''/dp/'']],
      [[TypeSel ''a'', AttrContains ''href'' ''/gp/product/'']]]"

text \<open>
  \<^verbatim>\<open>element.querySelector(...) || (element.tagName === 'A' ? element : null)\<close>, shared
  by \<^verbatim>\<open>extractASINFromElement\<close> and \<^verbatim>\<open>extractItemUrl\<close>.
\<close>

definition productLink :: "element \<Rightarrow> element option" where
  "productLink el =
     (case querySelector el productLinkSelector of
        Some l \<Rightarrow> Some l
      | None \<Rightarrow> if localName (self el) = ''a'' then Some el else None)"

definition extractASINFromElement :: "browser \<Rightarrow> element \<Rightarrow> string" where
  "extractASINFromElement br el =
     (let asin0 =
            orElse (orElse (getAttribute el ''data-asin'') (getAttribute el ''data-item-id''))
              (case closest el dataAsinSelector of
                 None \<Rightarrow> None
               | Some a \<Rightarrow> getAttribute a ''data-asin'')
      in
        if truthy asin0 \<and> isAsinShape (case asin0 of Some s \<Rightarrow> s | None \<Rightarrow> [])
        then toUpperCase (case asin0 of Some s \<Rightarrow> s | None \<Rightarrow> [])
        else
          (case productLink el of
             None \<Rightarrow> []
           | Some link \<Rightarrow>
               let href = orElse (hrefProperty br link) (getAttribute link ''href'')
               in if truthy href
                  then (case productPathMatch (case href of Some h \<Rightarrow> h | None \<Rightarrow> []) of
                          Some m \<Rightarrow> toUpperCase m
                        | None \<Rightarrow> [])
                  else []))"

subsection \<open>\<^verbatim>\<open>extractItemName\<close>\<close>

definition titleSelectors :: "selector list" where
  "titleSelectors =
     [[[[TypeSel ''h2''], [TypeSel ''a''], [TypeSel ''span'']]],
      [[[TypeSel ''h3''], [TypeSel ''a''], [TypeSel ''span'']]],
      [[[AttrContains ''id'' ''itemName'']]],
      [[[ClassSel ''a-text-normal'']]],
      [[[TypeSel ''a'', AttrContains ''id'' ''itemName'']]],
      [[[ClassSel ''a-link-normal'']]],
      [[[TypeSel ''h2'']]],
      [[[TypeSel ''h3'']]]]"

fun firstTitle :: "element \<Rightarrow> selector list \<Rightarrow> string option" where
  "firstTitle el [] = None"
| "firstTitle el (s # ss) =
     (case querySelector el s of
        Some titleEl \<Rightarrow>
          let t = trim (textContent (self titleEl))
          in if length t > 0 then Some t else firstTitle el ss
      | None \<Rightarrow> firstTitle el ss)"

definition extractItemName :: "element \<Rightarrow> string" where
  "extractItemName el =
     (case firstTitle el titleSelectors of
        Some t \<Rightarrow> t
      | None \<Rightarrow>
          let allText = trim (textContent (self el))
          in if length allText > 50 then trim (take 200 allText) else [])"

subsection \<open>\<^verbatim>\<open>formatPrice\<close> and \<^verbatim>\<open>extractItemPrice\<close>\<close>

definition formatPrice :: "string \<Rightarrow> string" where
  "formatPrice raw =
     (if raw = [] then []
      else
        let cleaned = replaceAll (CHR '','') [] raw
        in if includesStr cleaned ''$'' then cleaned else ''$'' @ cleaned)"

definition isDigitOrComma :: "char \<Rightarrow> bool" where
  "isDigitOrComma c = (isDigit c \<or> c = CHR '','')"

text \<open>The characters of a price captured by the two patterns below.\<close>

definition isPriceChar :: "char \<Rightarrow> bool" where
  "isPriceChar c = (isDigit c \<or> c = CHR '','' \<or> c = CHR ''.'')"

text \<open>
  \<^verbatim>\<open>/[\$]?([\d,]+\.?\d*)/\<close>. Each of the three parts of the group is greedy and
  what follows it can match the empty string, so from a digit or comma the group is
  the longest run of digits and commas, a dot if one follows, and the digits after it.
  The leftmost match starts at the first digit or comma, or at a dollar sign right
  before one.
\<close>

definition priceGroup :: "string \<Rightarrow> string" where
  "priceGroup s =
     (let whole = takeWhile isDigitOrComma s; after = dropWhile isDigitOrComma s
      in case after of
           [] \<Rightarrow> whole
         | c # r \<Rightarrow> if c = CHR ''.'' then whole @ [c] @ takeWhile isDigit r else whole)"

fun priceMatch :: "string \<Rightarrow> string option" where
  "priceMatch [] = None"
| "priceMatch (c # cs) =
     (if isDigitOrComma c then Some (priceGroup (c # cs))
      else if c = CHR ''$'' \<and> cs \<noteq> [] \<and> isDigitOrComma (hd cs) then Some (priceGroup cs)
      else priceMatch cs)"

text \<open>
  \<^verbatim>\<open>/[\$]?([\d,]+\.?\d{2})/\<close>. From a digit or comma, with \<open>n\<close> the length of the
  run of digits and commas: the greedy run is followed by a dot and two digits; or,
  backtracking, the run is cut at the largest \<open>k\<close> with two digits at \<open>k\<close> and
  \<open>k + 1\<close> inside it.
\<close>

definition fallbackGroup :: "string \<Rightarrow> string option" where
  "fallbackGroup s =
     (let n = length (takeWhile isDigitOrComma s); after = drop n s
      in if n \<ge> 1 \<and> (case after of
                         c # d1 # d2 # r \<Rightarrow> c = CHR ''.'' \<and> isDigit d1 \<and> isDigit d2
                       | _ \<Rightarrow> False)
         then Some (take (n + 3) s)
         else (case filter (\<lambda>k. isDigit (s ! k) \<and> isDigit (s ! (k + 1))) (rev [1..<n - 1]) of
                 k # ks \<Rightarrow> Some (take (k + 2) s)
               | [] \<Rightarrow> None))"

fun fallbackPriceMatch :: "string \<Rightarrow> string option" where
  "fallbackPriceMatch [] = None"
| "fallbackPriceMatch (c # cs) =
     (case (if c = CHR ''$'' then fallbackGroup cs else fallbackGroup (c # cs)) of
        Some g \<Rightarrow> Some g
      | None \<Rightarrow> fallbackPriceMatch cs)"

definition priceSelectors :: "selector list" where
  "priceSelectors =
     [[[[ClassSel ''a-price''], [ClassSel ''a-offscreen'']]],
      [[[ClassSel ''a-price-whole'']]],
      [[[AttrContains ''class'' ''price'']]],
      [[[ClassSel ''a-color-price'']]],
      [[[AttrPresent ''data-price'']]]]"

fun firstPrice :: "element \<Rightarrow> selector list \<Rightarrow> string option" where
  "firstPrice el [] = None"
| "firstPrice el (s # ss) =
     (case querySelector el s of
        None \<Rightarrow> firstPrice el ss
      | Some priceEl \<Rightarrow>
          (case getAttribute priceEl ''data-price'' of
             Some dataPrice \<Rightarrow>
               if dataPrice \<noteq> [] then Some (formatPrice dataPrice)
               else
                 let priceText = trim (textContent (self priceEl))
                 in if priceText \<noteq> []
                    then (case priceMatch priceText of
                            Some g \<Rightarrow> Some (formatPrice g)
                          | None \<Rightarrow> Some priceText)
                    else firstPrice el ss
           | None \<Rightarrow>
               let priceText = trim (textContent (self priceEl))
               in if priceText \<noteq> []
                  then (case priceMatch priceText of
                          Some g \<Rightarrow> Some (formatPrice g)
                        | None \<Rightarrow> Some priceText)
                  else firstPrice el ss))"

definition extractItemPrice :: "element \<Rightarrow> string" where
  "extractItemPrice el =
     (case firstPrice el priceSelectors of
        Some p \<Rightarrow> p
      | None \<Rightarrow>
          (case fallbackPriceMatch (textContent (self el)) of
             Some g \<Rightarrow> formatPrice g
           | None \<Rightarrow> []))"

subsection \<open>\<^verbatim>\<open>extractItemUrl\<close>\<close>

text \<open>
  \<open>cleanUrl\<close> is the body of \<^verbatim>\<open>if (href) { ... }\<close>: a leading slash is resolved
  against the site (\<open>siteAbsolute\<close>), then the URL is rebuilt from its origin and
  path; when the constructor throws, the \<^verbatim>\<open>catch\<close> returns the address as it then
  stands.
\<close>

definition siteAbsolute :: "string \<Rightarrow> string" where
  "siteAbsolute href = (if startsWith href ''/'' then ''https://www.amazon.com'' @ href else href)"

definition cleanUrl :: "browser \<Rightarrow> string \<Rightarrow> string" where
  "cleanUrl br href =
     (let href' = siteAbsolute href
      in case newURL br href' of
           Some u \<Rightarrow> origin u @ pathname u
         | None \<Rightarrow> href')"




definition extractItemUrl :: "browser \<Rightarrow> element \<Rightarrow> string" where
  "extractItemUrl br el =
     (case productLink el of
        None \<Rightarrow> []
      | Some link \<Rightarrow>
          (case orElse (hrefProperty br link) (getAttribute link ''href'') of
             None \<Rightarrow> []
           | Some href \<Rightarrow> if href \<noteq> [] then cleanUrl br href else []))"

subsection \<open>\<^verbatim>\<open>extractItemImage\<close>\<close>

text \<open>The block the source repeats after each image address it finds.\<close>

definition absolutize :: "string \<Rightarrow> string" where
  "absolutize u =
     (if startsWith u ''//'' then ''https:'' @ u
      else if startsWith u ''/'' then ''https://www.amazon.com'' @ u
      else u)"

definition imageSelectors :: "selector list" where
  "imageSelectors =
     [[[[TypeSel ''img'', AttrPresent ''data-a-dynamic-image'']]],
      [[[TypeSel ''img'', AttrPresent ''data-src'']]],
      [[[TypeSel ''img'', ClassSel ''a-dynamic-image'']]],
      [[[ClassSel ''a-dynamic-image''], [TypeSel ''img'']]],
      [[[AttrPresent ''data-image-latency''], [TypeSel ''img'']]],
      [[[TypeSel ''img'', AttrPresent ''src'']]]]"

text \<open>
  One turn of the loop for a matched image: \<open>Some u\<close> when the source returns \<open>u\<close>,
  \<open>None\<close> when it goes on to the next selector.
\<close>

definition imageFrom :: "browser \<Rightarrow> element \<Rightarrow> string option" where
  "imageFrom br img =
     (let fromJson =
            (case getAttribute img ''data-a-dynamic-image'' of
               None \<Rightarrow> None
             | Some dynamicImageAttr \<Rightarrow>
                 if dynamicImageAttr = [] then None
                 else (case jsonObjectKeys br dynamicImageAttr of
                         None \<Rightarrow> None
                       | Some imageUrls \<Rightarrow>
                           if length imageUrls > 0 then Some (absolutize (last imageUrls))
                           else None));
          fromDataSrc =
            (case getAttribute img ''data-src'' of
               None \<Rightarrow> None
             | Some u \<Rightarrow> if u \<noteq> [] then Some (absolutize u) else None);
          fromSrc =
            (case orElse (getAttribute img ''src'') (srcProperty br img) of
               None \<Rightarrow> None
             | Some u \<Rightarrow>
                 if u = [] then None
                 else if includesStr u ''pixel'' \<or> includesStr u ''placeholder''
                         \<or> includesStr u ''data:image''
                 then None
                 else Some (absolutize u))
      in case fromJson of
           Some u \<Rightarrow> Some u
         | None \<Rightarrow> (case fromDataSrc of Some u \<Rightarrow> Some u | None \<Rightarrow> fromSrc))"

fun firstImage :: "browser \<Rightarrow> element \<Rightarrow> selector list \<Rightarrow> string option" where
  "firstImage br el [] = None"
| "firstImage br el (s # ss) =
     (case querySelector el s of
        None \<Rightarrow> firstImage br el ss
      | Some img \<Rightarrow>
          (case imageFrom br img of Some u \<Rightarrow> Some u | None \<Rightarrow> firstImage br el ss))"

definition extractItemImage :: "browser \<Rightarrow> element \<Rightarrow> string" where
  "extractItemImage br el =
     (case firstImage br el imageSelectors of
        Some u \<Rightarrow> u
      | None \<Rightarrow>
          (case querySelector el [[[TypeSel ''img'']]] of
             None \<Rightarrow> []
           | Some anyImg \<Rightarrow>
               (case orElse (srcProperty br anyImg) (getAttribute anyImg ''src'') of
                  None \<Rightarrow> []
                | Some u \<Rightarrow>
                    if u \<noteq> [] \<and> \<not> includesStr u ''pixel'' \<and> \<not> includesStr u ''placeholder''
                    then absolutize u
                    else [])))"

subsection \<open>\<^verbatim>\<open>extractItemData\<close>\<close>

text \<open>\<^verbatim>\<open>[data-asin], [href*="/dp/"], [href*="/gp/product/"]\<close>\<close>

definition asinElementSelector :: selector where
  "asinElementSelector =
     [[[AttrPresent ''data-asin'']],
      [[AttrContains ''href'' ''/dp/'']],
      [[AttrContains ''href'' ''/gp/product/'']]]"

text \<open>\<open>None\<close> is the \<^verbatim>\<open>null\<close> the source returns when it finds no identifier.\<close>

definition extractItemData :: "browser \<Rightarrow> element \<Rightarrow> WishlistRecord option" where
  "extractItemData br el =
     (let asin0 = extractASINFromElement br el;
          asin1 =
            (if asin0 = [] then
               (case querySelector el asinElementSelector of
                  Some asinElement \<Rightarrow> extractASINFromElement br asinElement
                | None \<Rightarrow> asin0)
             else asin0)
      in
        if asin1 = [] then None
        else
          let name' = extractItemName el;
              price' = extractItemPrice el;
              url' = extractItemUrl br el;
              image' = extractItemImage br el
          in Some \<lparr>name = (if name' = [] then ''Unknown Item'' else name'),
                    asin = asin1,
                    price = (if price' = [] then ''N/A'' else price'),
                    url = (if url' = [] then ''https://www.amazon.com/dp/'' @ asin1 else url'),
                    image = image'\<rparr>)"

section \<open>Utilities: \<^verbatim>\<open>extractASIN\<close>\<close>

text \<open>
  \<^verbatim>\<open>extractASIN(input)\<close> takes a URL string or an element. Any input that is not an
  object is turned into a string first, so the input is one of the two.
\<close>

datatype asin_input = FromString string | FromElement element

text \<open>\<^verbatim>\<open>/[?&]asin=([A-Z0-9]{10})(?:&|$)/i\<close>, anchored and as a search.\<close>

definition asinParamAt :: "string \<Rightarrow> string option" where
  "asinParamAt s =
     (case s of
        [] \<Rightarrow> None
      | c # r \<Rightarrow>
          if (c = CHR ''?'' \<or> c = CHR ''&'') \<and> startsWithCI r ''asin=''
          then
            let code = take 10 (drop 5 r); after = drop 15 r
            in if length code = 10 \<and> list_all isAlnum code
                  \<and> (after = [] \<or> hd after = CHR ''&'')
               then Some code else None
          else None)"

fun asinParamMatch :: "string \<Rightarrow> string option" where
  "asinParamMatch [] = None"
| "asinParamMatch (c # cs) =
     (case asinParamAt (c # cs) of Some m \<Rightarrow> Some m | None \<Rightarrow> asinParamMatch cs)"

text \<open>
  \<^verbatim>\<open>/\b([A-Z0-9]{10})\b/\<close> (no \<^verbatim>\<open>i\<close> flag): ten capitals or digits with no
  word character right before or right after. \<open>prev\<close> says whether the character
  before the input is a word character.
\<close>

fun pathTokenFrom :: "bool \<Rightarrow> string \<Rightarrow> string option" where
  "pathTokenFrom prev [] = None"
| "pathTokenFrom prev (c # cs) =
     (let tok = take 10 (c # cs); after = drop 10 (c # cs)
      in if \<not> prev \<and> length tok = 10 \<and> list_all isUpperOrDigit tok
            \<and> (after = [] \<or> \<not> isWordChar (hd after))
         then Some tok
         else pathTokenFrom (isWordChar c) cs)"

definition pathTokenMatch :: "string \<Rightarrow> string option" where
  "pathTokenMatch s = pathTokenFrom False s"

text \<open>The three patterns applied to the URL, from \<^verbatim>\<open>if (!url) return ''\<close> on.\<close>

definition asinFromUrl :: "string \<Rightarrow> string" where
  "asinFromUrl u =
     (if u = [] then []
      else
        (case productPathMatch u of
           Some m \<Rightarrow> toUpperCase m
         | None \<Rightarrow>
             (case asinParamMatch u of
                Some m \<Rightarrow> toUpperCase m
              | None \<Rightarrow>
                  (case pathTokenMatch u of
                     Some t \<Rightarrow>
                       if length t = 10 \<and> hd t \<in> set ''B0123456789A'' then toUpperCase t else []
                   | None \<Rightarrow> []))))"

text \<open>
  \<^verbatim>\<open>url = input.href || input.getAttribute('href') || ''\<close>, and the value of
  \<^verbatim>\<open>input.closest('[data-asin]')?.getAttribute('data-asin')\<close>.
\<close>

definition inputUrl :: "browser \<Rightarrow> element \<Rightarrow> string" where
  "inputUrl br el =
     (case orElse (hrefProperty br el) (getAttribute el ''href'') of
        Some h \<Rightarrow> h
      | None \<Rightarrow> [])"

definition nearestDataAsin :: "element \<Rightarrow> string option" where
  "nearestDataAsin el =
     (case closest el dataAsinSelector of
        None \<Rightarrow> None
      | Some parentWithAsin \<Rightarrow> getAttribute parentWithAsin ''data-asin'')"

text \<open>
  The element branch returns an attribute's value as it is, in two places: the
  element's own attributes (or its nearest \<^verbatim>\<open>data-asin\<close>) when it has no address, and
  then, address or not, the nearest \<^verbatim>\<open>data-asin\<close> again. Whatever is left goes on to
  the patterns with the address.
\<close>

definition extractASIN :: "browser \<Rightarrow> asin_input \<Rightarrow> string" where
  "extractASIN br input =
     (case input of
        FromString s \<Rightarrow> asinFromUrl s
      | FromElement el \<Rightarrow>
          let u = inputUrl br el;
              own = orElse (orElse (getAttribute el ''data-asin'') (getAttribute el ''data-item-id''))
                      (nearestDataAsin el);
              parent = nearestDataAsin el
          in if u = [] \<and> truthy own then (case own of Some a \<Rightarrow> a | None \<Rightarrow> [])
             else if truthy parent then (case parent of Some a \<Rightarrow> a | None \<Rightarrow> [])
             else asinFromUrl u)"

text \<open>
  A bare token of a string, by position: ten capitals or digits from position \<open>k\<close> on,
  with no word character right before and none right after. This is where
  \<^verbatim>\<open>/\b([A-Z0-9]{10})\b/\<close> can match.
\<close>

definition bareTokenAt :: "string \<Rightarrow> nat \<Rightarrow> bool" where
  "bareTokenAt s k =
     (k + 10 \<le> length s \<and> list_all isUpperOrDigit (take 10 (drop k s))
      \<and> (0 < k \<longrightarrow> \<not> isWordChar (s ! (k - 1)))
      \<and> (k + 10 < length s \<longrightarrow> \<not> isWordChar (s ! (k + 10))))"

section \<open>Utilities: CSV export\<close>

text \<open>
  \<^verbatim>\<open>escapeCSVField(field)\<close>: \<open>None\<close> stands for \<^verbatim>\<open>null\<close> or \<^verbatim>\<open>undefined\<close>.
\<close>

definition escapeCSVField :: "string option \<Rightarrow> string" where
  "escapeCSVField field =
     (case field of
        None \<Rightarrow> []
      | Some str \<Rightarrow>
          if includesStr str '','' \<or> includesStr str [dquote] \<or> includesStr str [newline]
          then [dquote] @ replaceAll dquote [dquote, dquote] str @ [dquote]
          else str)"

text \<open>The arrow function mapped over the items: \<^verbatim>\<open>item.name || ''\<close> is the field itself.\<close>

definition csvRow :: "WishlistRecord \<Rightarrow> string" where
  "csvRow item =
     (let name' = escapeCSVField (Some (name item));
          asin' = escapeCSVField (Some (asin item));
          price' = escapeCSVField (Some (price item));
          url' = escapeCSVField (Some (url item));
          image' = escapeCSVField (Some (image item))
      in name' @ '','' @ asin' @ '','' @ price' @ '','' @ url' @ '','' @ image')"

definition headers :: "string list" where
  "headers = [''Item Name'', ''ASIN'', ''Price'', ''URL'', ''Image URL'']"

text \<open>
  What an export does: an alert and nothing else, or the download of a file with a name
  and a content. \<open>today\<close> is \<^verbatim>\<open>new Date().toISOString().split('T')[0]\<close>.
\<close>

datatype export_result = Alert string | Download string string

definition exportToCSV :: "string \<Rightarrow> WishlistRecord list \<Rightarrow> export_result" where
  "exportToCSV today items =
     (if length items = 0 then Alert ''No items to export''
      else
        let rows = map csvRow items;
            csvContent = join [newline] (join '','' headers # rows)
        in Download (''amazon-wishlist-'' @ today @ ''.csv'') csvContent)"

subsection \<open>Standard CSV decoding of one field\<close>

text \<open>
  The decoder of RFC 4180, stated from the specification's words ("standard CSV
  decoding"), not from the source: a field that opens with a quote runs to the first
  quote that is not doubled, and doubled quotes stand for one; any other field runs to
  the next comma or line break and holds no quote. \<open>decodeField\<close> returns the field's
  value and the input that follows it.
\<close>

fun decodeQuoted :: "string \<Rightarrow> (string \<times> string) option" where
  "decodeQuoted [] = None"
| "decodeQuoted [c] = (if c = dquote then Some ([], []) else None)"
| "decodeQuoted (c # d # ds) =
     (if c = dquote then
        (if d = dquote then map_option (\<lambda>(v, r). (dquote # v, r)) (decodeQuoted ds)
         else Some ([], d # ds))
      else map_option (\<lambda>(v, r). (c # v, r)) (decodeQuoted (d # ds)))"

definition decodeField :: "string \<Rightarrow> (string \<times> string) option" where
  "decodeField s =
     (case s of
        [] \<Rightarrow> Some ([], [])
      | c # cs \<Rightarrow>
          if c = dquote then
            (case decodeQuoted cs of
               Some (v, r) \<Rightarrow> if r = [] \<or> hd r = CHR '','' \<or> hd r = newline then Some (v, r) else None
             | None \<Rightarrow> None)
          else
            let v = takeWhile (\<lambda>x. x \<noteq> CHR '','' \<and> x \<noteq> newline) s;
                r = dropWhile (\<lambda>x. x \<noteq> CHR '','' \<and> x \<noteq> newline) s
            in if dquote \<in> set v then None else Some (v, r))"

section \<open>Content script: the collector \<^verbatim>\<open>scrapeWishlist\<close>\<close>

text \<open>
  The page changes while the collector waits, so the collector is given the sequence
  of documents it will read: \<open>pages 0\<close> is the document when it is called, and
  \<open>pages k\<close> the document after the \<open>k\<close>-th scroll to the bottom and the wait that
  follows it. Every sequence is allowed.
\<close>

datatype error = NotAWishlistPage | PrivateOrInaccessible | NoItemsFound

fun message :: "error \<Rightarrow> string" where
  "message NotAWishlistPage = ''Not on an Amazon wishlist page''"
| "message PrivateOrInaccessible = ''This wishlist is private and cannot be scraped''"
| "message NoItemsFound = ''No wishlist items found. The page structure may have changed.''"

text \<open>
  The locals of \<^verbatim>\<open>scrapeWishlist\<close>. \<open>reveals\<close> is not a variable of the source: it
  counts the scrolls performed, which is also the index of the document read next.
\<close>

record CollectionRun =
  items :: "WishlistRecord list"
  seenIds :: "string set"
  previousItemCount :: nat
  scrollAttempts :: nat
  reveals :: nat

definition maxScrollAttempts :: nat where
  "maxScrollAttempts = 10"

text \<open>
  The closure \<^verbatim>\<open>extractItems\<close>: the \<^verbatim>\<open>forEach\<close> over the located elements, with the
  set of seen identifiers passed in and returned.
\<close>

fun extractEach :: "browser \<Rightarrow> element list \<Rightarrow> string set \<Rightarrow> WishlistRecord list \<times> string set" where
  "extractEach br [] seen = ([], seen)"
| "extractEach br (e # es) seen =
     (case extractItemData br e of
        None \<Rightarrow> extractEach br es seen
      | Some item \<Rightarrow>
          if asin item \<noteq> [] \<and> asin item \<notin> seen
          then (let (newItems, seen') = extractEach br es (insert (asin item) seen)
                in (item # newItems, seen'))
          else extractEach br es seen)"

definition extractItems :: "browser \<Rightarrow> document \<Rightarrow> string set \<Rightarrow> WishlistRecord list \<times> string set" where
  "extractItems br d seen = extractEach br (findWishlistItems d) seen"

text \<open>
  One turn of the \<^verbatim>\<open>while\<close> loop up to its test: the count is saved, the page is
  scrolled and given time, and the items of the document then shown are added.
\<close>

definition scrollStep :: "browser \<Rightarrow> (nat \<Rightarrow> document) \<Rightarrow> CollectionRun \<Rightarrow> CollectionRun" where
  "scrollStep br pages run =
     (let previous = length (items run);
          n = reveals run + 1;
          (newItems, seen') = extractItems br (pages n) (seenIds run)
      in run\<lparr>items := items run @ newItems, seenIds := seen',
              previousItemCount := previous, reveals := n\<rparr>)"

text \<open>The \<^verbatim>\<open>while\<close> loop; the \<^verbatim>\<open>break\<close> is the branch that returns.\<close>

function scrollLoop :: "browser \<Rightarrow> (nat \<Rightarrow> document) \<Rightarrow> CollectionRun \<Rightarrow> CollectionRun" where
  "scrollLoop br pages run =
     (if scrollAttempts run < maxScrollAttempts then
        let run' = scrollStep br pages run
        in if length (items run') = previousItemCount run' then run'
           else scrollLoop br pages (run'\<lparr>scrollAttempts := scrollAttempts run' + 1\<rparr>)
      else run)"
  by pat_completeness auto
termination
proof (relation "measure (\<lambda>(br, pages, run). maxScrollAttempts - scrollAttempts run)")
  show "wf (measure (\<lambda>(br, pages, run). maxScrollAttempts - scrollAttempts run))"
    by simp
next
  fix br :: browser and pages :: "nat \<Rightarrow> document" and run run' :: CollectionRun
  assume "scrollAttempts run < maxScrollAttempts" and "run' = scrollStep br pages run"
  moreover have "scrollAttempts (scrollStep br pages run) = scrollAttempts run"
    by (simp add: scrollStep_def Let_def split: prod.splits)
  ultimately show "((br, pages, run'\<lparr>scrollAttempts := scrollAttempts run' + 1\<rparr>), br, pages, run)
      \<in> measure (\<lambda>(br, pages, run). maxScrollAttempts - scrollAttempts run)"
    by simp
qed

declare scrollLoop.simps [simp del]

text \<open>The run from the initial extraction to the end of the loop.\<close>

definition collect :: "browser \<Rightarrow> (nat \<Rightarrow> document) \<Rightarrow> CollectionRun" where
  "collect br pages =
     (let (firstItems, seen) = extractItems br (pages 0) {}
      in scrollLoop br pages
           \<lparr>items = firstItems, seenIds = seen, previousItemCount = 0,
            scrollAttempts = 0, reveals = 0\<rparr>)"

text \<open>
  What the promise settles with (\<open>Inl\<close>: the error thrown, \<open>Inr\<close>: the array
  returned), and the number of scrolls performed before it settles.
\<close>

record Outcome =
  settled :: "error + WishlistRecord list"
  revealCycles :: nat

definition scrapeWishlist :: "browser \<Rightarrow> (nat \<Rightarrow> document) \<Rightarrow> Outcome" where
  "scrapeWishlist br pages =
     (if \<not> isWishlistPage (pages 0) then
        \<lparr>settled = Inl NotAWishlistPage, revealCycles = 0\<rparr>
      else if isPrivateWishlist br (pages 0) then
        \<lparr>settled = Inl PrivateOrInaccessible, revealCycles = 0\<rparr>
      else
        let run = collect br pages
        in if length (items run) = 0
           then \<lparr>settled = Inl NoItemsFound, revealCycles = reveals run\<rparr>
           else \<lparr>settled = Inr (items run), revealCycles = reveals run\<rparr>)"

text \<open>
  The invariant of a run: the collected records carry pairwise different identifiers,
  and every one of them is in the set of seen identifiers.
\<close>

definition runInvariant :: "CollectionRun \<Rightarrow> bool" where
  "runInvariant run =
     (distinct (map asin (items run)) \<and> set (map asin (items run)) \<subseteq> seenIds run)"

section \<open>Sample inputs\<close>

text \<open>Concrete inputs on which the theorems below are evaluated.\<close>

subsection \<open>A browser for the samples\<close>

text \<open>
  \<open>sampleBrowser\<close> serialises markup without escaping and parses the addresses that
  occur in the samples as the URL Standard does:
  \<^item> an \<^verbatim>\<open>http\<close> or \<^verbatim>\<open>https\<close> address whose host is made of letters, digits,
    dots and hyphens parses, with the origin up to the host and the path up to the
    first \<^verbatim>\<open>?\<close> or \<^verbatim>\<open>#\<close>; one with any other host (a host with a space) fails;
  \<^item> an address with any other scheme than the special ones, and no \<^verbatim>\<open>//\<close> after
    the colon, parses, with the origin \<^verbatim>\<open>null\<close> and the path up to the first
    \<^verbatim>\<open>?\<close> or \<^verbatim>\<open>#\<close>;
  \<^item> a string without a scheme fails in the constructor, which has no base address;
    as an attribute's value it resolves against the site of the sample pages when it
    starts with one slash.
\<close>

fun serialize :: "node \<Rightarrow> string" where
  "serialize (TextNode t) = t"
| "serialize (Element t as cs) =
     ''<'' @ t @ concat (map (\<lambda>(k, v). '' '' @ k @ ''='' @ [dquote] @ v @ [dquote]) as) @ ''>''
       @ concat (map serialize cs) @ ''</'' @ t @ ''>''"

definition sampleInnerHTML :: "node \<Rightarrow> string" where
  "sampleInnerHTML n = concat (map serialize (childNodes n))"

definition hostEnd :: "char \<Rightarrow> bool" where
  "hostEnd c = (c \<in> set ''/?#'')"

definition pathEnd :: "char \<Rightarrow> bool" where
  "pathEnd c = (c \<in> set ''?#'')"

definition isHostChar :: "char \<Rightarrow> bool" where
  "isHostChar c = (isAlnum c \<or> c \<in> set ''.-'')"

text \<open>What follows the scheme and the two slashes: the host, the path and the rest.\<close>

definition splitAuthority :: "string \<Rightarrow> string \<Rightarrow> (string \<times> string \<times> string) option" where
  "splitAuthority sch r =
     (let host = takeWhile (\<lambda>c. \<not> hostEnd c) r;
          after = dropWhile (\<lambda>c. \<not> hostEnd c) r;
          path = takeWhile (\<lambda>c. \<not> pathEnd c) after;
          tail = dropWhile (\<lambda>c. \<not> pathEnd c) after
      in if host \<noteq> [] \<and> list_all isHostChar host
         then Some (sch @ host, (if path = [] then ''/'' else path), tail)
         else None)"

definition splitHttp :: "string \<Rightarrow> (string \<times> string \<times> string) option" where
  "splitHttp s =
     (if startsWith s ''https://'' then splitAuthority ''https://'' (drop 8 s)
      else if startsWith s ''http://'' then splitAuthority ''http://'' (drop 7 s)
      else None)"

definition splitOther :: "string \<Rightarrow> (string \<times> string) option" where
  "splitOther s =
     (let scheme = takeWhile (\<lambda>c. isAlnum c \<or> c \<in> set ''+-.'') s;
          rest = drop (length scheme) s
      in if scheme \<noteq> [] \<and> (isLower (hd scheme) \<or> isUpper (hd scheme))
            \<and> toUpperCase scheme \<notin> set [''HTTP'', ''HTTPS'', ''FTP'', ''WS'', ''WSS'', ''FILE'']
            \<and> startsWith rest '':'' \<and> \<not> startsWith rest ''://''
         then Some (takeWhile (\<lambda>c. \<not> pathEnd c) (drop 1 rest),
                    dropWhile (\<lambda>c. \<not> pathEnd c) (drop 1 rest))
         else None)"

definition sampleNewURL :: "string \<Rightarrow> URL option" where
  "sampleNewURL s =
     (case splitHttp s of
        Some (org, path, tail) \<Rightarrow> Some \<lparr>origin = org, pathname = path\<rparr>
      | None \<Rightarrow>
          (case splitOther s of
             Some (path, tail) \<Rightarrow> Some \<lparr>origin = ''null'', pathname = path\<rparr>
           | None \<Rightarrow> None))"

definition sampleResolveURL :: "string \<Rightarrow> string option" where
  "sampleResolveURL s =
     (if startsWith s ''/'' \<and> \<not> startsWith s ''//'' then Some (''https://www.amazon.com'' @ s)
      else (case splitHttp s of
              Some (org, path, tail) \<Rightarrow> Some (org @ path @ tail)
            | None \<Rightarrow> (case splitOther s of Some (path, tail) \<Rightarrow> Some s | None \<Rightarrow> None)))"

definition sampleBrowser :: browser where
  "sampleBrowser =
     \<lparr>innerHTML = sampleInnerHTML, resolveURL = sampleResolveURL,
      newURL = sampleNewURL, jsonObjectKeys = (\<lambda>s. None)\<rparr>"

subsection \<open>Sample records and pages\<close>

definition sampleField :: string where
  "sampleField = ''Tea, '' @ [dquote] @ ''green'' @ [dquote, newline] @ ''loose''"

definition sampleItem :: WishlistRecord where
  "sampleItem = \<lparr>name = sampleField, asin = ''B00EXAMPLE'', price = ''$1234.50'',
     url = ''https://www.amazon.com/dp/B00EXAMPLE'', image = []\<rparr>"

definition page :: "string \<Rightarrow> node list \<Rightarrow> document" where
  "page address nodes =
     \<lparr>location = address, htmlAttributes = [(''lang'', ''en'')],
      headNodes = [Element ''title'' [] [TextNode ''Amazon'']],
      bodyAttributes = [], bodyNodes = nodes\<rparr>"

text \<open>
  A page in a changed format: no \<^verbatim>\<open>#g-items\<close> container, three elements with a
  product code, two of them under a container whose id holds \<^verbatim>\<open>item\<close>.
\<close>

definition gridDoc :: document where
  "gridDoc =
     page ''https://www.amazon.com/hz/wishlist/ls/2ABCDEFGHIJKL''
       [Element ''div'' [(''id'', ''wl-item-view'')]
          [Element ''div'' [(''data-asin'', ''B000000001''), (''class'', ''g-item-sortable'')]
             [TextNode ''Kettle''],
           Element ''div'' [(''data-asin'', ''b000000002'')] [TextNode ''Teapot'']],
        Element ''div'' [(''data-asin'', ''B000000003'')] []]"

text \<open>Pages for the classifier.\<close>

definition privateDoc :: document where
  "privateDoc =
     page ''https://www.amazon.com/hz/wishlist/ls/2ABCDEFGHIJKL''
       [Element ''div'' [(''class'', ''a-box'')]
          [Element ''h1'' [] [TextNode ''This list is private'']]]"

definition loadingDoc :: document where
  "loadingDoc =
     page ''https://www.amazon.com/hz/wishlist/ls/2ABCDEFGHIJKL''
       [Element ''div'' [(''class'', ''a-box'')]
          [Element ''h1'' [] [TextNode ''This list is private'']],
        Element ''ul'' [(''id'', ''g-items'')] []]"

definition signInDoc :: document where
  "signInDoc =
     page ''https://www.amazon.com/hz/wishlist/ls/2ABCDEFGHIJKL''
       [Element ''div'' [(''class'', ''a-box a-alert-error'')]
          [TextNode ''Sign in to view this list'']]"

definition visibleDoc :: document where
  "visibleDoc =
     page ''https://www.amazon.com/hz/wishlist/ls/2ABCDEFGHIJKL''
       [Element ''div'' [(''class'', ''a-box a-alert-error'')]
          [TextNode ''This list is private. Sign in to view this list''],
        Element ''ul'' [(''id'', ''g-items'')]
          [Element ''li'' [(''data-item-id'', ''B000000001'')] [TextNode ''Kettle'']]]"

definition emptyDoc :: document where
  "emptyDoc = page ''https://www.amazon.com/hz/wishlist/ls/2ABCDEFGHIJKL'' []"

text \<open>
  Elements for the extractor. \<open>nestedDoc\<close> is a list in the grid format whose only
  item carries its product code on a child element; \<open>nestedItem\<close> is that item as
  the locator returns it.
\<close>

definition nestedDoc :: document where
  "nestedDoc =
     page ''https://www.amazon.com/hz/wishlist/ls/2ABCDEFGHIJKL''
       [Element ''ul'' [(''class'', ''a-unordered-list a-nostyle a-vertical'')]
          [Element ''li'' []
             [Element ''div'' [(''data-asin'', ''B000000001'')] [TextNode ''Kettle'']]]]"

definition nestedItem :: element where
  "nestedItem = hd (findWishlistItems nestedDoc)"

definition teapotItem :: element where
  "teapotItem =
     \<lparr>self = Element ''div'' [(''data-asin'', ''b000000002'')] [TextNode ''Teapot''],
      ancestors = [Element ''body'' [] []]\<rparr>"

definition looseItem :: element where
  "looseItem =
     \<lparr>self = Element ''div'' [(''data-asin'', ''abc'')] [TextNode ''Mug''],
      ancestors = [Element ''body'' [] []]\<rparr>"

definition listedItem :: element where
  "listedItem =
     \<lparr>self = Element ''li'' [(''data-item-id'', ''I2XYZ'')] [TextNode ''Spoon''],
      ancestors = [Element ''body'' [] []]\<rparr>"

text \<open>
  An element without attributes inside a \<^verbatim>\<open>div\<close> whose \<^verbatim>\<open>data-asin\<close> is no product
  code, and a product link in the same place.
\<close>

definition wrappedItem :: element where
  "wrappedItem =
     \<lparr>self = Element ''span'' [] [TextNode ''Cup''],
      ancestors = [Element ''div'' [(''data-asin'', ''xyz'')] [Element ''span'' [] [TextNode ''Cup'']],
                   Element ''body'' [] []]\<rparr>"

definition wrappedLink :: element where
  "wrappedLink =
     \<lparr>self = Element ''a'' [(''href'', ''/dp/B000000001'')] [TextNode ''Cup''],
      ancestors = [Element ''div'' [(''data-asin'', ''xyz'')]
                     [Element ''a'' [(''href'', ''/dp/B000000001'')] [TextNode ''Cup'']],
                   Element ''body'' [] []]\<rparr>"

definition codeLink :: element where
  "codeLink =
     \<lparr>self = Element ''a'' [(''href'', ''/dp/b000000004?tag=wish-20'')] [TextNode ''Jar''],
      ancestors = [Element ''body'' [] []]\<rparr>"

definition plainItem :: element where
  "plainItem =
     \<lparr>self = Element ''li'' [] [TextNode ''Loading''],
      ancestors = [Element ''body'' [] []]\<rparr>"



definition pricedItem :: element where
  "pricedItem =
     \<lparr>self = Element ''li'' [(''data-item-id'', ''B000000001'')]
        [Element ''span'' [(''class'', ''a-color-price''), (''data-price'', ''US$25.00'')]
           [TextNode ''US$25.00'']],
      ancestors = [Element ''body'' [] []]\<rparr>"

definition textPricedItem :: element where
  "textPricedItem =
     \<lparr>self = Element ''li'' [(''data-item-id'', ''B000000001'')]
        [Element ''span'' [(''class'', ''a-price'')]
           [Element ''span'' [(''class'', ''a-offscreen'')] [TextNode '' $1,299.00 '']]],
      ancestors = [Element ''body'' [] []]\<rparr>"

text \<open>
  Pages for the collector: a list page holding the given identifiers, and sequences of
  pages over the scrolls. \<open>steadyPages\<close> never changes and shows one product twice;
  \<open>growingPages\<close> shows one more product after every scroll, without end;
  \<open>latePages\<close> fills in after the first scroll.
\<close>

definition itemNode :: "string \<Rightarrow> node" where
  "itemNode a = Element ''li'' [(''data-item-id'', a)] [TextNode ''Item'']"

definition listDoc :: "string list \<Rightarrow> document" where
  "listDoc ids =
     page ''https://www.amazon.com/hz/wishlist/ls/2ABCDEFGHIJKL''
       [Element ''ul'' [(''id'', ''g-items'')] (map itemNode ids)]"

definition steadyPages :: "nat \<Rightarrow> document" where
  "steadyPages k = listDoc [''B000000001'', ''b000000002'', ''B000000001'', ''B000000003'']"

definition digitChar :: "nat \<Rightarrow> char" where
  "digitChar n = ''0123456789'' ! (n mod 10)"

definition productCode :: "nat \<Rightarrow> string" where
  "productCode n = ''B0000000'' @ [digitChar (n div 10), digitChar n]"

definition growingPages :: "nat \<Rightarrow> document" where
  "growingPages k = listDoc (map productCode [0..<k + 1])"

definition latePages :: "nat \<Rightarrow> document" where
  "latePages k = (if k = 0 then listDoc [] else listDoc [''B000000001'', ''B000000002''])"

definition cartPages :: "nat \<Rightarrow> document" where
  "cartPages k = page ''https://www.amazon.com/gp/cart/view.html'' []"

definition stalePages :: "nat \<Rightarrow> document" where
  "stalePages k = listDoc [''I2XYZ'']"

section \<open>Strings: lemmas\<close>

lemma includesStr_single: "includesStr s [c] = (c \<in> set s)"
  by (induction s) (auto simp: startsWith_def)

section \<open>Locator and classifier: the theorems\<close>

lemma docQuerySelectorAll_location:
  "docQuerySelectorAll (d\<lparr>location := u\<rparr>) sel = docQuerySelectorAll d sel"
  by (simp add: docQuerySelectorAll_def documentElement_def body_def)

text \<open>
  Claim C5. The locator runs its four queries in the order of the source and returns
  the result of the first that is not empty, as that query gave it: when the first
  three are empty it returns the fourth, which is the empty sequence when all four
  miss. The result is a function of the tree alone: the page's address does not
  change it.
\<close>

theorem findWishlistItems_first_match:
  "(docQuerySelectorAll d strategy1 \<noteq> [] \<longrightarrow>
      findWishlistItems d = docQuerySelectorAll d strategy1)
   \<and> (docQuerySelectorAll d strategy1 = [] \<and> docQuerySelectorAll d strategy2 \<noteq> [] \<longrightarrow>
      findWishlistItems d = docQuerySelectorAll d strategy2)
   \<and> (docQuerySelectorAll d strategy1 = [] \<and> docQuerySelectorAll d strategy2 = []
        \<and> docQuerySelectorAll d strategy3 \<noteq> [] \<longrightarrow>
      findWishlistItems d = docQuerySelectorAll d strategy3)
   \<and> (docQuerySelectorAll d strategy1 = [] \<and> docQuerySelectorAll d strategy2 = []
        \<and> docQuerySelectorAll d strategy3 = [] \<longrightarrow>
      findWishlistItems d = docQuerySelectorAll d strategy4)
   \<and> findWishlistItems (d\<lparr>location := u\<rparr>) = findWishlistItems d"
  by (simp add: findWishlistItems_def Let_def docQuerySelectorAll_location)

lemma gridDoc_strategy1: "docQuerySelectorAll gridDoc strategy1 = []"
  by code_simp

lemma gridDoc_strategy2:
  "map self (docQuerySelectorAll gridDoc strategy2) =
     [Element ''div'' [(''data-asin'', ''B000000001''), (''class'', ''g-item-sortable'')]
        [TextNode ''Kettle''],
      Element ''div'' [(''data-asin'', ''b000000002'')] [TextNode ''Teapot'']]"
  by code_simp

lemma gridDoc_strategy3: "length (docQuerySelectorAll gridDoc strategy3) = 1"
  by code_simp

lemma gridDoc_strategy4: "length (docQuerySelectorAll gridDoc strategy4) = 3"
  by code_simp

text \<open>
  On \<open>gridDoc\<close> the first query is empty and the second finds two elements; the third
  would find one and the fourth three, and none of them is added to the result.
\<close>

theorem findWishlistItems_first_match_witness:
  "docQuerySelectorAll gridDoc strategy1 = []
   \<and> length (docQuerySelectorAll gridDoc strategy3) = 1
   \<and> length (docQuerySelectorAll gridDoc strategy4) = 3
   \<and> map self (findWishlistItems gridDoc) =
       [Element ''div'' [(''data-asin'', ''B000000001''), (''class'', ''g-item-sortable'')]
          [TextNode ''Kettle''],
        Element ''div'' [(''data-asin'', ''b000000002'')] [TextNode ''Teapot'']]
   \<and> findWishlistItems (gridDoc\<lparr>location := []\<rparr>) = findWishlistItems gridDoc"
proof -
  have ne: "docQuerySelectorAll gridDoc strategy2 \<noteq> []"
    using gridDoc_strategy2 by auto
  have "findWishlistItems gridDoc = docQuerySelectorAll gridDoc strategy2"
    using findWishlistItems_first_match [of gridDoc "[]"] gridDoc_strategy1 ne by blast
  then show ?thesis
    using findWishlistItems_first_match [of gridDoc "[]"]
      gridDoc_strategy1 gridDoc_strategy2 gridDoc_strategy3 gridDoc_strategy4
    by simp
qed

text \<open>
  Claim C4. \<^verbatim>\<open>isPrivateWishlist\<close> is false whenever the locator finds an element.
  It is true exactly when the locator finds none and either one of the known phrases
  occurs in the text or the markup of the body while no element matches the structural
  anchors \<^verbatim>\<open>#g-items, [data-wishlist], .a-unordered-list.a-nostyle.a-vertical\<close>, or an
  element matching \<^verbatim>\<open>[data-action="sign-in"], .a-alert-error\<close> holds one of the three
  list-access phrases; in every other case it is false.
\<close>

theorem isPrivateWishlist_cases:
  "(findWishlistItems d \<noteq> [] \<longrightarrow> \<not> isPrivateWishlist br d)
   \<and> (isPrivateWishlist br d \<longleftrightarrow>
        findWishlistItems d = []
        \<and> ((\<exists>indicator \<in> set privateIndicators.
               includesStr (textContent (body d)) indicator
               \<or> includesStr (innerHTML br (body d)) indicator)
             \<and> docQuerySelector d wishlistStructure = None
            \<or> (\<exists>prompt \<in> set (docQuerySelectorAll d signInPromptSelector).
                 includesStr (textContent (self prompt)) ''view this list''
                 \<or> includesStr (textContent (self prompt)) ''access this list''
                 \<or> includesStr (textContent (self prompt)) ''private list'')))"
  by (auto simp add: isPrivateWishlist_def Let_def list_ex_iff)

lemma visibleDoc_items: "findWishlistItems visibleDoc \<noteq> []"
  by code_simp

text \<open>
  \<open>visibleDoc\<close> shows an item under an alert that says the list is private: not
  private. \<open>privateDoc\<close> holds the phrase and no anchor: private. \<open>loadingDoc\<close> holds
  the phrase and an empty \<^verbatim>\<open>#g-items\<close>: not private. \<open>signInDoc\<close> holds an alert
  about viewing the list: private. \<open>emptyDoc\<close> holds nothing: not private.
\<close>

theorem isPrivateWishlist_cases_witness:
  "\<not> isPrivateWishlist sampleBrowser visibleDoc
   \<and> isPrivateWishlist sampleBrowser privateDoc
   \<and> \<not> isPrivateWishlist sampleBrowser loadingDoc
   \<and> isPrivateWishlist sampleBrowser signInDoc
   \<and> \<not> isPrivateWishlist sampleBrowser emptyDoc"
proof -
  have a: "\<not> isPrivateWishlist sampleBrowser visibleDoc"
    using isPrivateWishlist_cases [of visibleDoc sampleBrowser] visibleDoc_items by blast
  have b: "isPrivateWishlist sampleBrowser privateDoc"
    by code_simp
  have c: "\<not> isPrivateWishlist sampleBrowser loadingDoc"
    by code_simp
  have d: "isPrivateWishlist sampleBrowser signInDoc"
    by code_simp
  have e: "\<not> isPrivateWishlist sampleBrowser emptyDoc"
    by code_simp
  show ?thesis using a b c d e by simp
qed

section \<open>Field extractor: the theorems\<close>

subsection \<open>Upper case and the shape of identifiers\<close>

lemma toUpperChar_lower: "isLower c \<Longrightarrow> isUpper (toUpperChar c)"
  unfolding toUpperChar_def isLower_def isUpper_def asciiLower_def asciiUpper_def by auto

lemma toUpperChar_not_lower: "\<not> isLower c \<Longrightarrow> toUpperChar c = c"
  unfolding toUpperChar_def isLower_def asciiLower_def asciiUpper_def
  by (auto split: option.splits if_splits)

lemma isUpper_not_lower: "isUpper c \<Longrightarrow> \<not> isLower c"
  unfolding isLower_def isUpper_def asciiLower_def asciiUpper_def by auto

lemma isDigit_not_lower: "isDigit c \<Longrightarrow> \<not> isLower c"
  unfolding isLower_def isDigit_def asciiLower_def by auto

lemma toUpperChar_alnum: "isAlnum c \<Longrightarrow> isUpperOrDigit (toUpperChar c)"
  using toUpperChar_lower [of c] toUpperChar_not_lower [of c]
  by (cases "isLower c") (auto simp: isAlnum_def isUpperOrDigit_def)

lemma toUpperChar_fixed: "isUpperOrDigit c \<Longrightarrow> toUpperChar c = c"
  using isUpper_not_lower isDigit_not_lower toUpperChar_not_lower
  by (auto simp: isUpperOrDigit_def)

lemma toUpperChar_idem: "toUpperChar (toUpperChar c) = toUpperChar c"
  using toUpperChar_lower [of c] toUpperChar_not_lower isUpper_not_lower
  by (cases "isLower c") auto

lemma toUpperCase_idem: "toUpperCase (toUpperCase x) = toUpperCase x"
  by (simp add: toUpperCase_def toUpperChar_idem)

lemma toUpperCase_alnum:
  "list_all isAlnum s \<Longrightarrow> list_all isUpperOrDigit (toUpperCase s)"
  by (induction s) (auto simp: toUpperCase_def toUpperChar_alnum)

lemma toUpperCase_fixed: "list_all isUpperOrDigit s \<Longrightarrow> toUpperCase s = s"
  by (induction s) (auto simp: toUpperCase_def toUpperChar_fixed)

lemma length_toUpperCase: "length (toUpperCase s) = length s"
  by (simp add: toUpperCase_def)

lemma productPathAt_shape: "productPathAt s = Some m \<Longrightarrow> length m = 10 \<and> list_all isAlnum m"
  by (auto simp: productPathAt_def Let_def split: if_splits option.splits)

lemma productPathMatch_shape:
  "productPathMatch s = Some m \<Longrightarrow> length m = 10 \<and> list_all isAlnum m"
  by (induction s) (auto split: option.splits dest: productPathAt_shape)

lemma extractASINFromElement_shape:
  "extractASINFromElement br el = [] \<or>
   (length (extractASINFromElement br el) = 10
    \<and> list_all isUpperOrDigit (extractASINFromElement br el))"
  by (auto simp: extractASINFromElement_def Let_def isAsinShape_def length_toUpperCase
        toUpperCase_alnum
      split: option.splits dest: productPathMatch_shape)

lemma extractItemData_asin:
  "extractItemData br el = Some r \<Longrightarrow>
     asin r \<noteq> [] \<and>
     (asin r = extractASINFromElement br el
      \<or> (\<exists>d. querySelector el asinElementSelector = Some d \<and> asin r = extractASINFromElement br d))"
  by (auto simp: extractItemData_def Let_def split: if_splits option.splits)

lemma extractItemData_None:
  "extractItemData br el = None \<longleftrightarrow>
     extractASINFromElement br el = []
     \<and> (case querySelector el asinElementSelector of
          None \<Rightarrow> True | Some d \<Rightarrow> extractASINFromElement br d = [])"
  by (auto simp: extractItemData_def Let_def split: if_splits option.splits)

text \<open>
  Claim C6, as amended. Every record that \<^verbatim>\<open>extractItemData\<close> returns carries an
  identifier of exactly ten characters, each a capital letter or a digit, which
  upper-casing leaves unchanged; upper-casing is idempotent on every string. The result
  is \<^verbatim>\<open>null\<close> exactly when \<^verbatim>\<open>extractASINFromElement\<close> finds no identifier for the
  node and none for the node's first descendant matching
  \<^verbatim>\<open>[data-asin], [href*="/dp/"], [href*="/gp/product/"]\<close>, if there is one.
\<close>

theorem extractItemData_identifier:
  "(extractItemData br el = Some r \<longrightarrow>
      length (asin r) = 10 \<and> list_all isUpperOrDigit (asin r) \<and> toUpperCase (asin r) = asin r)
   \<and> toUpperCase (toUpperCase x) = toUpperCase x
   \<and> (extractItemData br el = None \<longleftrightarrow>
        extractASINFromElement br el = []
        \<and> (case querySelector el asinElementSelector of
             None \<Rightarrow> True | Some d \<Rightarrow> extractASINFromElement br d = []))"
proof -
  have "length (asin r) = 10 \<and> list_all isUpperOrDigit (asin r)"
    if "extractItemData br el = Some r"
  proof -
    from extractItemData_asin [OF that] obtain e where
      "asin r \<noteq> []" "asin r = extractASINFromElement br e" by auto
    then show ?thesis using extractASINFromElement_shape [of br e] by auto
  qed
  then show ?thesis
    using toUpperCase_fixed toUpperCase_idem extractItemData_None by blast
qed

theorem extractItemData_identifier_witness:
  "extractItemData sampleBrowser teapotItem =
     Some \<lparr>name = ''Unknown Item'', asin = ''B000000002'', price = ''N/A'',
           url = ''https://www.amazon.com/dp/B000000002'', image = []\<rparr>
   \<and> length ''B000000002'' = 10 \<and> list_all isUpperOrDigit ''B000000002''
   \<and> toUpperCase ''B000000002'' = ''B000000002''
   \<and> toUpperCase (toUpperCase ''b000000002'') = toUpperCase ''b000000002''
   \<and> extractItemData sampleBrowser plainItem = None
   \<and> extractASINFromElement sampleBrowser plainItem = []
   \<and> querySelector plainItem asinElementSelector = None"
proof -
  have a: "extractItemData sampleBrowser teapotItem =
     Some \<lparr>name = ''Unknown Item'', asin = ''B000000002'', price = ''N/A'',
           url = ''https://www.amazon.com/dp/B000000002'', image = []\<rparr>"
    by code_simp
  have b: "extractASINFromElement sampleBrowser plainItem = []"
    by code_simp
  have c: "querySelector plainItem asinElementSelector = None"
    by code_simp
  show ?thesis
    using extractItemData_identifier [of sampleBrowser teapotItem
        "\<lparr>name = ''Unknown Item'', asin = ''B000000002'', price = ''N/A'',
           url = ''https://www.amazon.com/dp/B000000002'', image = []\<rparr>" "''b000000002''"]
      extractItemData_identifier [of sampleBrowser plainItem _ "[]"] a b c
    by simp
qed

text \<open>
  Claim C6 as stated fails on \<open>nestedItem\<close>: the node has no identifier attribute of
  its own, no ancestor with one and no product link below it or in itself, and a
  record is returned; the identifier is the attribute of a child element.
\<close>

theorem extractItemData_descendant_counterexample:
  "self nestedItem = Element ''li'' [] [Element ''div'' [(''data-asin'', ''B000000001'')] [TextNode ''Kettle'']]
   \<and> getAttribute nestedItem ''data-asin'' = None
   \<and> getAttribute nestedItem ''data-item-id'' = None
   \<and> closest nestedItem dataAsinSelector = None
   \<and> productLink nestedItem = None
   \<and> extractItemData sampleBrowser nestedItem =
       Some \<lparr>name = ''Unknown Item'', asin = ''B000000001'', price = ''N/A'',
             url = ''https://www.amazon.com/dp/B000000001'', image = []\<rparr>"
  by code_simp

subsection \<open>Prices\<close>

lemma replaceAll_remove: "replaceAll c [] s = filter (\<lambda>x. x \<noteq> c) s"
  by (induction s) (auto simp: replaceAll_def)

lemma count_list_zero: "c \<notin> set s \<Longrightarrow> count_list s c = 0"
  by (induction s) auto

lemma formatPrice_no_symbol:
  assumes "p \<noteq> []" and "CHR ''$'' \<notin> set p"
  shows "formatPrice p = CHR ''$'' # filter (\<lambda>c. c \<noteq> CHR '','') p"
    and "count_list (formatPrice p) (CHR ''$'') = 1"
proof -
  show a: "formatPrice p = CHR ''$'' # filter (\<lambda>c. c \<noteq> CHR '','') p"
    using assms by (simp add: formatPrice_def Let_def replaceAll_remove includesStr_single)
  show "count_list (formatPrice p) (CHR ''$'') = 1"
    using assms(2) by (simp add: a count_list_zero)
qed

lemma formatPrice_symbol:
  "CHR ''$'' \<in> set p \<Longrightarrow> formatPrice p = filter (\<lambda>c. c \<noteq> CHR '','') p"
  by (auto simp: formatPrice_def Let_def replaceAll_remove includesStr_single)

lemma formatPrice_no_comma: "CHR '','' \<notin> set (formatPrice p)"
  by (simp add: formatPrice_def Let_def replaceAll_remove includesStr_single)

lemma takeWhile_all: "list_all P (takeWhile P s)"
  by (induction s) auto

lemma priceGroup_chars: "list_all isPriceChar (priceGroup s)"
proof -
  have a: "list_all isPriceChar (takeWhile isDigitOrComma s)"
    using takeWhile_all [of isDigitOrComma s]
    by (auto simp: list_all_iff isPriceChar_def isDigitOrComma_def)
  have b: "list_all isPriceChar (takeWhile isDigit r)" for r
    using takeWhile_all [of isDigit r] by (auto simp: list_all_iff isPriceChar_def)
  show ?thesis
    using a b by (auto simp: priceGroup_def Let_def isPriceChar_def split: list.splits)
qed

lemma priceGroup_nonempty: "s \<noteq> [] \<Longrightarrow> isDigitOrComma (hd s) \<Longrightarrow> priceGroup s \<noteq> []"
  by (cases s) (auto simp: priceGroup_def Let_def split: list.splits)

lemma priceMatch_chars: "priceMatch t = Some g \<Longrightarrow> g \<noteq> [] \<and> list_all isPriceChar g"
proof (induction t)
  case Nil
  then show ?case by simp
next
  case (Cons c cs)
  then show ?case
    using priceGroup_chars priceGroup_nonempty [of "c # cs"] priceGroup_nonempty [of cs]
    by (auto split: if_splits)
qed

lemma take_run_chars:
  assumes "k \<le> length (takeWhile isDigitOrComma s)"
  shows "list_all isPriceChar (take k s)"
proof -
  have "take k s = take k (takeWhile isDigitOrComma s)"
    using assms by (metis takeWhile_dropWhile_id take_append append_Nil2 diff_is_0_eq take_0)
  moreover have "list_all isPriceChar (takeWhile isDigitOrComma s)"
    using takeWhile_all [of isDigitOrComma s]
    by (auto simp: list_all_iff isPriceChar_def isDigitOrComma_def)
  ultimately show ?thesis by (auto simp: list_all_iff dest: in_set_takeD)
qed

lemma fallbackGroup_chars:
  assumes "fallbackGroup s = Some g"
  shows "g \<noteq> [] \<and> list_all isPriceChar g"
proof -
  define n where "n = length (takeWhile isDigitOrComma s)"
  show ?thesis
  proof (cases "n \<ge> 1 \<and> (case drop n s of
                         c # d1 # d2 # r \<Rightarrow> c = CHR ''.'' \<and> isDigit d1 \<and> isDigit d2
                       | _ \<Rightarrow> False)")
    case True
    then obtain d1 d2 r where dr: "drop n s = CHR ''.'' # d1 # d2 # r" "isDigit d1" "isDigit d2"
      by (auto split: list.splits)
    have g: "g = take (n + 3) s"
      using assms True by (simp add: fallbackGroup_def Let_def n_def)
    have "take (n + 3) s = take n s @ take 3 (drop n s)"
      by (simp add: take_add)
    then have "g = take n s @ [CHR ''.'', d1, d2]" using g dr by simp
    moreover have "list_all isPriceChar (take n s)"
      using take_run_chars [of n s] by (simp add: n_def)
    ultimately show ?thesis using dr by (simp add: isPriceChar_def)
  next
    case False
    then obtain k ks where
      f: "filter (\<lambda>k. isDigit (s ! k) \<and> isDigit (s ! (k + 1))) (rev [1..<n - 1]) = k # ks"
      and g: "g = take (k + 2) s"
      using assms by (auto simp: fallbackGroup_def Let_def n_def split: list.splits if_splits)
    have "k \<in> set (filter (\<lambda>k. isDigit (s ! k) \<and> isDigit (s ! (k + 1))) (rev [1..<n - 1]))"
      using f by simp
    then have k: "1 \<le> k" "k + 2 \<le> n" by auto
    then have "list_all isPriceChar g"
      using take_run_chars [of "k + 2" s] g by (simp add: n_def)
    moreover have "n \<le> length s" by (simp add: n_def length_takeWhile_le)
    then have "g \<noteq> []" using g k by auto
    ultimately show ?thesis by simp
  qed
qed

lemma fallbackPriceMatch_chars:
  "fallbackPriceMatch t = Some g \<Longrightarrow> g \<noteq> [] \<and> list_all isPriceChar g"
  by (induction t) (auto split: if_splits option.splits dest: fallbackGroup_chars)

lemma symbol_not_priceChar: "\<not> isPriceChar (CHR ''$'')"
  by (simp add: isPriceChar_def isDigit_def)

lemma priceChars_no_symbol: "list_all isPriceChar g \<Longrightarrow> CHR ''$'' \<notin> set g"
  using symbol_not_priceChar by (auto simp: list_all_iff)

text \<open>
  Claim C8, as amended. The output of \<^verbatim>\<open>formatPrice\<close> never holds a comma. For a
  non-empty price without a dollar sign the output is the dollar sign followed by the
  price without its commas, so the sign leads and occurs once. A price that already
  holds a dollar sign is returned without its commas and otherwise as it is. Every
  price that the extractor's two patterns capture from text is made of digits, commas
  and dots, so there the output has the leading sign exactly once.
\<close>

theorem formatPrice_commas_and_symbol:
  "CHR '','' \<notin> set (formatPrice p)
   \<and> (p \<noteq> [] \<and> CHR ''$'' \<notin> set p \<longrightarrow>
        formatPrice p = CHR ''$'' # filter (\<lambda>c. c \<noteq> CHR '','') p
        \<and> count_list (formatPrice p) (CHR ''$'') = 1)
   \<and> (CHR ''$'' \<in> set p \<longrightarrow> formatPrice p = filter (\<lambda>c. c \<noteq> CHR '','') p)
   \<and> (priceMatch t = Some g \<or> fallbackPriceMatch t = Some g \<longrightarrow>
        g \<noteq> [] \<and> list_all isPriceChar g
        \<and> formatPrice g = CHR ''$'' # filter (\<lambda>c. c \<noteq> CHR '','') g
        \<and> count_list (formatPrice g) (CHR ''$'') = 1)"
proof -
  have "g \<noteq> [] \<and> list_all isPriceChar g
        \<and> formatPrice g = CHR ''$'' # filter (\<lambda>c. c \<noteq> CHR '','') g
        \<and> count_list (formatPrice g) (CHR ''$'') = 1"
    if "priceMatch t = Some g \<or> fallbackPriceMatch t = Some g"
  proof -
    have g: "g \<noteq> [] \<and> list_all isPriceChar g"
      using that priceMatch_chars fallbackPriceMatch_chars by blast
    then have "CHR ''$'' \<notin> set g" using priceChars_no_symbol by blast
    then show ?thesis using g formatPrice_no_symbol [of g] by simp
  qed
  then show ?thesis
    using formatPrice_no_comma [of p] formatPrice_no_symbol [of p] formatPrice_symbol [of p]
    by blast
qed

theorem formatPrice_commas_and_symbol_witness:
  "CHR '','' \<notin> set (formatPrice ''1,299.00'')
   \<and> formatPrice ''1,299.00'' = ''$1299.00''
   \<and> count_list (formatPrice ''1,299.00'') (CHR ''$'') = 1
   \<and> formatPrice ''$1,299.00'' = ''$1299.00''
   \<and> priceMatch ''from $1,299.00 up'' = Some ''1,299.00''
   \<and> fallbackPriceMatch ''Kettle 129900 USD'' = Some ''129900''
   \<and> formatPrice ''129900'' = ''$129900''
   \<and> extractItemPrice textPricedItem = ''$1299.00''"
proof -
  have a: "priceMatch ''from $1,299.00 up'' = Some ''1,299.00''" by code_simp
  have b: "fallbackPriceMatch ''Kettle 129900 USD'' = Some ''129900''" by code_simp
  have c: "extractItemPrice textPricedItem = ''$1299.00''" by code_simp
  have d: "CHR ''$'' \<in> set ''$1,299.00''" by simp
  have n1: "count_list (formatPrice ''1,299.00'') (CHR ''$'') = 1"
    and c1: "CHR '','' \<notin> set (formatPrice ''1,299.00'')"
    using formatPrice_commas_and_symbol [of "''1,299.00''" "''from $1,299.00 up''" "''1,299.00''"] a
    by blast+
  have "formatPrice ''1,299.00'' = CHR ''$'' # filter (\<lambda>c. c \<noteq> CHR '','') ''1,299.00''"
    using formatPrice_commas_and_symbol [of "''1,299.00''" "''from $1,299.00 up''" "''1,299.00''"] a
    by blast
  also have "CHR ''$'' # filter (\<lambda>c. c \<noteq> CHR '','') ''1,299.00'' = ''$1299.00''"
    by code_simp
  finally have e1: "formatPrice ''1,299.00'' = ''$1299.00''" .
  have "formatPrice ''$1,299.00'' = filter (\<lambda>c. c \<noteq> CHR '','') ''$1,299.00''"
    using formatPrice_commas_and_symbol [of "''$1,299.00''"] d by blast
  also have "\<dots> = ''$1299.00''" by code_simp
  finally have e2: "formatPrice ''$1,299.00'' = ''$1299.00''" .
  have "formatPrice ''129900'' = CHR ''$'' # filter (\<lambda>c. c \<noteq> CHR '','') ''129900''"
    using formatPrice_commas_and_symbol [of _ "''Kettle 129900 USD''" "''129900''"] b by blast
  also have "\<dots> = ''$129900''" by code_simp
  finally have e3: "formatPrice ''129900'' = ''$129900''" .
  show ?thesis using a b c c1 n1 e1 e2 e3 by blast
qed

text \<open>
  Claim C8 as stated fails on a price that holds the sign after other characters: the
  attribute \<^verbatim>\<open>data-price="US$25.00"\<close> of \<open>pricedItem\<close> is formatted to itself, and the
  sign does not lead.
\<close>

theorem formatPrice_symbol_counterexample:
  "extractItemPrice pricedItem = formatPrice ''US$25.00''
   \<and> formatPrice ''US$25.00'' = ''US$25.00''
   \<and> \<not> startsWith (formatPrice ''US$25.00'') ''$''"
  by code_simp

subsection \<open>The sample URL constructor\<close>
















subsection \<open>Addresses\<close>















section \<open>\<^verbatim>\<open>extractASIN\<close>: the theorems\<close>

lemma find_map_Suc: "find P (map Suc xs) = map_option Suc (find (\<lambda>k. P (Suc k)) xs)"
  by (induction xs) auto

lemma upt_Suc_shift: "[0..<Suc n] = 0 # map Suc [0..<n]"
  by (simp add: upt_conv_Cons map_Suc_upt del: upt_Suc)

lemma bareTokenAt_Suc:
  "bareTokenAt (c # cs) (Suc k) \<longleftrightarrow> bareTokenAt cs k \<and> (k = 0 \<longrightarrow> \<not> isWordChar c)"
  by (cases k) (auto simp: bareTokenAt_def)

lemma bareTokenAt_0:
  "bareTokenAt s 0 \<longleftrightarrow>
     length (take 10 s) = 10 \<and> list_all isUpperOrDigit (take 10 s)
     \<and> (drop 10 s = [] \<or> \<not> isWordChar (hd (drop 10 s)))"
  by (auto simp: bareTokenAt_def hd_drop_conv_nth min_def)

lemma pathTokenFrom_find:
  "pathTokenFrom prev s =
     map_option (\<lambda>k. take 10 (drop k s))
       (find (\<lambda>k. bareTokenAt s k \<and> (k = 0 \<longrightarrow> \<not> prev)) [0..<length s])"
proof (induction s arbitrary: prev)
  case Nil
  show ?case by simp
next
  case (Cons c cs)
  show ?case
  proof (cases "bareTokenAt (c # cs) 0 \<and> \<not> prev")
    case True
    then have "pathTokenFrom prev (c # cs) = Some (take 10 (c # cs))"
      using bareTokenAt_0 [of "c # cs"] by (auto simp: Let_def)
    moreover have "find (\<lambda>k. bareTokenAt (c # cs) k \<and> (k = 0 \<longrightarrow> \<not> prev)) [0..<length (c # cs)] = Some 0"
      using True by (simp add: upt_Suc_shift del: upt_Suc)
    ultimately show ?thesis by simp
  next
    case False
    then have "pathTokenFrom prev (c # cs) = pathTokenFrom (isWordChar c) cs"
      using bareTokenAt_0 [of "c # cs"] by (auto simp: Let_def)
    moreover have "find (\<lambda>k. bareTokenAt (c # cs) k \<and> (k = 0 \<longrightarrow> \<not> prev)) [0..<length (c # cs)] =
        map_option Suc (find (\<lambda>k. bareTokenAt cs k \<and> (k = 0 \<longrightarrow> \<not> isWordChar c)) [0..<length cs])"
      using False by (auto simp: upt_Suc_shift find_map_Suc bareTokenAt_Suc simp del: upt_Suc)
    ultimately show ?thesis
      using Cons.IH [of "isWordChar c"] by (simp add: option.map_comp comp_def)
  qed
qed

lemma pathTokenMatch_find:
  "pathTokenMatch s = map_option (\<lambda>k. take 10 (drop k s)) (find (bareTokenAt s) [0..<length s])"
  unfolding pathTokenMatch_def using pathTokenFrom_find [of False s] by simp

lemma bareTokenAt_bound: "bareTokenAt s k \<Longrightarrow> k < length s"
  by (simp add: bareTokenAt_def)

lemma pathTokenMatch_first:
  assumes "bareTokenAt s k" and "\<forall>j<k. \<not> bareTokenAt s j"
  shows "pathTokenMatch s = Some (take 10 (drop k s))"
proof -
  have "find (bareTokenAt s) [0..<length s] = Some k"
    using assms bareTokenAt_bound [OF assms(1)] by (auto simp: find_Some_iff)
  then show ?thesis by (simp add: pathTokenMatch_find)
qed

lemma pathTokenMatch_None: "pathTokenMatch s = None \<longleftrightarrow> (\<forall>k. \<not> bareTokenAt s k)"
  using bareTokenAt_bound [of s] by (auto simp: pathTokenMatch_find find_None_iff)

lemma bareToken_shape:
  "bareTokenAt s k \<Longrightarrow> length (take 10 (drop k s)) = 10 \<and> list_all isUpperOrDigit (take 10 (drop k s))
     \<and> hd (take 10 (drop k s)) = s ! k"
  by (auto simp: bareTokenAt_def hd_drop_conv_nth)

lemma asinFromUrl_cases:
  shows "productPathMatch s = Some m \<Longrightarrow> asinFromUrl s = toUpperCase m"
    and "productPathMatch s = None \<Longrightarrow> asinParamMatch s = Some m \<Longrightarrow> asinFromUrl s = toUpperCase m"
    and "productPathMatch s = None \<Longrightarrow> asinParamMatch s = None \<Longrightarrow> bareTokenAt s k
           \<Longrightarrow> \<forall>j<k. \<not> bareTokenAt s j
           \<Longrightarrow> asinFromUrl s = (if s ! k \<in> set ''B0123456789A'' then take 10 (drop k s) else [])"
    and "productPathMatch s = None \<Longrightarrow> asinParamMatch s = None \<Longrightarrow> \<forall>k. \<not> bareTokenAt s k
           \<Longrightarrow> asinFromUrl s = []"
proof -
  show "asinFromUrl s = toUpperCase m" if "productPathMatch s = Some m"
    using that by (cases s) (auto simp: asinFromUrl_def)
  show "asinFromUrl s = toUpperCase m" if "productPathMatch s = None" "asinParamMatch s = Some m"
    using that by (cases s) (auto simp: asinFromUrl_def)
  show "asinFromUrl s = (if s ! k \<in> set ''B0123456789A'' then take 10 (drop k s) else [])"
    if n: "productPathMatch s = None" "asinParamMatch s = None"
      and k: "bareTokenAt s k" "\<forall>j<k. \<not> bareTokenAt s j"
  proof -
    define t where "t = take 10 (drop k s)"
    have m: "pathTokenMatch s = Some t"
      unfolding t_def by (rule pathTokenMatch_first [OF k])
    have sh: "length t = 10" "list_all isUpperOrDigit t" "hd t = s ! k"
      using bareToken_shape [OF k(1)] by (simp_all add: t_def)
    have ne: "s \<noteq> []" using bareTokenAt_bound [OF k(1)] by auto
    have "asinFromUrl s = (if hd t \<in> set ''B0123456789A'' then toUpperCase t else [])"
      using n m sh(1) ne by (simp add: asinFromUrl_def)
    then show ?thesis
      using sh toUpperCase_fixed [of t] unfolding t_def by simp
  qed
  show "asinFromUrl s = []"
    if "productPathMatch s = None" "asinParamMatch s = None" "\<forall>k. \<not> bareTokenAt s k"
    using that pathTokenMatch_None [of s] by (simp add: asinFromUrl_def)
qed

lemma extractASIN_element_cases:
  shows "inputUrl br el = [] \<Longrightarrow> getAttribute el ''data-asin'' = Some v \<Longrightarrow> v \<noteq> []
           \<Longrightarrow> extractASIN br (FromElement el) = v"
    and "inputUrl br el = [] \<Longrightarrow> \<not> truthy (getAttribute el ''data-asin'')
           \<Longrightarrow> getAttribute el ''data-item-id'' = Some v \<Longrightarrow> v \<noteq> []
           \<Longrightarrow> extractASIN br (FromElement el) = v"
    and "(inputUrl br el = [] \<longrightarrow> \<not> truthy (getAttribute el ''data-asin'')
                                 \<and> \<not> truthy (getAttribute el ''data-item-id''))
           \<Longrightarrow> nearestDataAsin el = Some v \<Longrightarrow> v \<noteq> []
           \<Longrightarrow> extractASIN br (FromElement el) = v"
    and "(inputUrl br el = [] \<longrightarrow> \<not> truthy (getAttribute el ''data-asin'')
                                 \<and> \<not> truthy (getAttribute el ''data-item-id''))
           \<Longrightarrow> \<not> truthy (nearestDataAsin el)
           \<Longrightarrow> extractASIN br (FromElement el) = extractASIN br (FromString (inputUrl br el))"
  by (auto simp: extractASIN_def Let_def orElse_def truthy_def split: option.splits)

text \<open>
  Claim C10, as amended. From an element, \<^verbatim>\<open>extractASIN\<close> returns an attribute's
  value as it is written, with no test of its shape and no change of case: the
  element's \<^verbatim>\<open>data-asin\<close>, or else its \<^verbatim>\<open>data-item-id\<close>, when the element has no
  address; and the \<^verbatim>\<open>data-asin\<close> of the nearest element that has one, the element
  itself included, with an address or without. Only when none of these is set does
  the address go through the patterns, as a string does. For a string, the first
  pattern's capture is returned in upper case, or else the second's; only when both
  fail is a bare token looked for, and then only the leftmost one counts: it is
  returned when it begins with A, B or a digit, and otherwise the result is empty,
  whatever stands to its right. \<^verbatim>\<open>extractASINFromElement\<close> returns the empty string
  or ten capitals and digits, so the two disagree: on \<open>looseItem\<close>
  (\<^verbatim>\<open>data-asin="abc"\<close>), on \<open>teapotItem\<close> (a lower-case code), on \<open>listedItem\<close> (a
  \<^verbatim>\<open>data-item-id\<close> that is no product code), and on \<open>wrappedItem\<close> and \<open>wrappedLink\<close>
  (inside an element whose \<^verbatim>\<open>data-asin\<close> is \<^verbatim>\<open>xyz\<close>).
\<close>

theorem extractASIN_verbatim_and_token:
  "(inputUrl br el = [] \<and> getAttribute el ''data-asin'' = Some v \<and> v \<noteq> []
      \<longrightarrow> extractASIN br (FromElement el) = v)
   \<and> (inputUrl br el = [] \<and> \<not> truthy (getAttribute el ''data-asin'')
        \<and> getAttribute el ''data-item-id'' = Some v \<and> v \<noteq> []
      \<longrightarrow> extractASIN br (FromElement el) = v)
   \<and> ((inputUrl br el = [] \<longrightarrow> \<not> truthy (getAttribute el ''data-asin'')
                                \<and> \<not> truthy (getAttribute el ''data-item-id''))
        \<and> nearestDataAsin el = Some v \<and> v \<noteq> []
      \<longrightarrow> extractASIN br (FromElement el) = v)
   \<and> ((inputUrl br el = [] \<longrightarrow> \<not> truthy (getAttribute el ''data-asin'')
                                \<and> \<not> truthy (getAttribute el ''data-item-id''))
        \<and> \<not> truthy (nearestDataAsin el)
      \<longrightarrow> extractASIN br (FromElement el) = extractASIN br (FromString (inputUrl br el)))
   \<and> (productPathMatch s = Some m \<longrightarrow> extractASIN br (FromString s) = toUpperCase m)
   \<and> (productPathMatch s = None \<and> asinParamMatch s = Some m
      \<longrightarrow> extractASIN br (FromString s) = toUpperCase m)
   \<and> (productPathMatch s = None \<and> asinParamMatch s = None
        \<and> bareTokenAt s k \<and> (\<forall>j<k. \<not> bareTokenAt s j)
      \<longrightarrow> pathTokenMatch s = Some (take 10 (drop k s))
          \<and> extractASIN br (FromString s) =
              (if s ! k \<in> set ''B0123456789A'' then take 10 (drop k s) else []))
   \<and> (productPathMatch s = None \<and> asinParamMatch s = None \<and> (\<forall>k. \<not> bareTokenAt s k)
      \<longrightarrow> extractASIN br (FromString s) = [])
   \<and> (extractASINFromElement br el = []
        \<or> length (extractASINFromElement br el) = 10
           \<and> list_all isUpperOrDigit (extractASINFromElement br el))
   \<and> extractASIN sampleBrowser (FromElement looseItem) = ''abc''
   \<and> extractASINFromElement sampleBrowser looseItem = []
   \<and> extractASIN sampleBrowser (FromElement teapotItem) = ''b000000002''
   \<and> extractASINFromElement sampleBrowser teapotItem = ''B000000002''
   \<and> extractASIN sampleBrowser (FromElement listedItem) = ''I2XYZ''
   \<and> extractASINFromElement sampleBrowser listedItem = []
   \<and> extractASIN sampleBrowser (FromElement wrappedItem) = ''xyz''
   \<and> extractASINFromElement sampleBrowser wrappedItem = []
   \<and> extractASIN sampleBrowser (FromElement wrappedLink) = ''xyz''
   \<and> extractASINFromElement sampleBrowser wrappedLink = ''B000000001''
   \<and> extractASIN sampleBrowser (FromString ''https://www.amazon.com/dp/b000000001?tag=wish-20'') = ''B000000001''
   \<and> extractASIN sampleBrowser (FromString ''https://www.amazon.com/item?asin=b000000003&ref=wl'') = ''B000000003''
   \<and> extractASIN sampleBrowser (FromString ''order 1234567890 shipped'') = ''1234567890''"
proof -
  have s1: "productPathMatch s = Some m \<longrightarrow> extractASIN br (FromString s) = toUpperCase m"
    using asinFromUrl_cases(1) [of s m] by (simp add: extractASIN_def)
  have s2: "productPathMatch s = None \<and> asinParamMatch s = Some m
      \<longrightarrow> extractASIN br (FromString s) = toUpperCase m"
    using asinFromUrl_cases(2) [of s m] by (simp add: extractASIN_def)
  have s3: "productPathMatch s = None \<and> asinParamMatch s = None
        \<and> bareTokenAt s k \<and> (\<forall>j<k. \<not> bareTokenAt s j)
      \<longrightarrow> pathTokenMatch s = Some (take 10 (drop k s))
          \<and> extractASIN br (FromString s) =
              (if s ! k \<in> set ''B0123456789A'' then take 10 (drop k s) else [])"
    using asinFromUrl_cases(3) [of s k] pathTokenMatch_first [of s k]
    by (simp add: extractASIN_def)
  have s4: "productPathMatch s = None \<and> asinParamMatch s = None \<and> (\<forall>k. \<not> bareTokenAt s k)
      \<longrightarrow> extractASIN br (FromString s) = []"
    using asinFromUrl_cases(4) [of s] by (simp add: extractASIN_def)
  have e1: "extractASIN sampleBrowser (FromElement looseItem) = ''abc''" by code_simp
  have e2: "extractASINFromElement sampleBrowser looseItem = []" by code_simp
  have e3: "extractASIN sampleBrowser (FromElement teapotItem) = ''b000000002''" by code_simp
  have e4: "extractASINFromElement sampleBrowser teapotItem = ''B000000002''" by code_simp
  have e5: "extractASIN sampleBrowser (FromElement listedItem) = ''I2XYZ''" by code_simp
  have e6: "extractASINFromElement sampleBrowser listedItem = []" by code_simp
  have e7: "extractASIN sampleBrowser (FromElement wrappedItem) = ''xyz''" by code_simp
  have e8: "extractASINFromElement sampleBrowser wrappedItem = []" by code_simp
  have e9: "extractASIN sampleBrowser (FromElement wrappedLink) = ''xyz''" by code_simp
  have e10: "extractASINFromElement sampleBrowser wrappedLink = ''B000000001''" by code_simp
  have e11: "extractASIN sampleBrowser (FromString ''https://www.amazon.com/dp/b000000001?tag=wish-20'') = ''B000000001''"
    by code_simp
  have e12: "extractASIN sampleBrowser (FromString ''https://www.amazon.com/item?asin=b000000003&ref=wl'') = ''B000000003''"
    by code_simp
  have e13: "extractASIN sampleBrowser (FromString ''order 1234567890 shipped'') = ''1234567890''"
    by code_simp
  show ?thesis
    using extractASIN_element_cases(1-3) [of br el v] extractASIN_element_cases(4) [of br el]
      s1 s2 s3 s4
      extractASINFromElement_shape [of br el] e1 e2 e3 e4 e5 e6 e7 e8 e9 e10 e11 e12 e13
    by blast
qed

text \<open>
  Each case on a sample: \<open>looseItem\<close> and \<open>listedItem\<close> carry the attribute
  themselves, \<open>wrappedItem\<close> and \<open>wrappedLink\<close> stand inside an element that carries
  it, \<open>codeLink\<close> has an address only. In \<^verbatim>\<open>order 1234567890 shipped\<close> the leftmost
  bare token stands at position 6; in \<^verbatim>\<open>ZZZZZZZZZZ B000000001\<close> it stands at position
  0 and begins with Z, so the result is empty.
\<close>

theorem extractASIN_verbatim_and_token_witness:
  "extractASIN sampleBrowser (FromElement looseItem) = ''abc''
   \<and> getAttribute looseItem ''data-asin'' = Some ''abc''
   \<and> extractASIN sampleBrowser (FromElement listedItem) = ''I2XYZ''
   \<and> getAttribute listedItem ''data-item-id'' = Some ''I2XYZ''
   \<and> extractASIN sampleBrowser (FromElement wrappedItem) = ''xyz''
   \<and> inputUrl sampleBrowser wrappedItem = []
   \<and> nearestDataAsin wrappedItem = Some ''xyz''
   \<and> extractASIN sampleBrowser (FromElement wrappedLink) = ''xyz''
   \<and> inputUrl sampleBrowser wrappedLink = ''https://www.amazon.com/dp/B000000001''
   \<and> nearestDataAsin wrappedLink = Some ''xyz''
   \<and> extractASIN sampleBrowser (FromElement codeLink) = ''B000000004''
   \<and> inputUrl sampleBrowser codeLink = ''https://www.amazon.com/dp/b000000004?tag=wish-20''
   \<and> extractASIN sampleBrowser (FromString ''https://www.amazon.com/item?asin=b000000003&ref=wl'') = ''B000000003''
   \<and> pathTokenMatch ''order 1234567890 shipped'' = Some ''1234567890''
   \<and> extractASIN sampleBrowser (FromString ''order 1234567890 shipped'') = ''1234567890''
   \<and> pathTokenMatch ''ZZZZZZZZZZ B000000001'' = Some ''ZZZZZZZZZZ''
   \<and> extractASIN sampleBrowser (FromString ''ZZZZZZZZZZ B000000001'') = []
   \<and> extractASIN sampleBrowser (FromString ''wish list'') = []
   \<and> extractASINFromElement sampleBrowser looseItem = []"
proof -
  note t = extractASIN_verbatim_and_token [where br = sampleBrowser]
  have a1: "inputUrl sampleBrowser looseItem = []" by code_simp
  have a2: "getAttribute looseItem ''data-asin'' = Some ''abc''" by code_simp
  have r1: "extractASIN sampleBrowser (FromElement looseItem) = ''abc''"
    using t [where el = looseItem and v = "''abc''" and s = "[]" and m = "[]" and k = 0] a1 a2 by blast
  have b1: "inputUrl sampleBrowser listedItem = []" by code_simp
  have b2: "\<not> truthy (getAttribute listedItem ''data-asin'')" by code_simp
  have b3: "getAttribute listedItem ''data-item-id'' = Some ''I2XYZ''" by code_simp
  have r2: "extractASIN sampleBrowser (FromElement listedItem) = ''I2XYZ''"
    using t [where el = listedItem and v = "''I2XYZ''" and s = "[]" and m = "[]" and k = 0] b1 b2 b3 by blast
  have c1: "inputUrl sampleBrowser wrappedItem = []" by code_simp
  have c2: "\<not> truthy (getAttribute wrappedItem ''data-asin'')
      \<and> \<not> truthy (getAttribute wrappedItem ''data-item-id'')" by code_simp
  have c3: "nearestDataAsin wrappedItem = Some ''xyz''" by code_simp
  have r3: "extractASIN sampleBrowser (FromElement wrappedItem) = ''xyz''"
    using t [where el = wrappedItem and v = "''xyz''" and s = "[]" and m = "[]" and k = 0] c2 c3 by blast
  have d1: "inputUrl sampleBrowser wrappedLink = ''https://www.amazon.com/dp/B000000001''"
    by code_simp
  have d2: "nearestDataAsin wrappedLink = Some ''xyz''" by code_simp
  have d3: "inputUrl sampleBrowser wrappedLink \<noteq> []" using d1 by simp
  have r4: "extractASIN sampleBrowser (FromElement wrappedLink) = ''xyz''"
    using t [where el = wrappedLink and v = "''xyz''" and s = "[]" and m = "[]" and k = 0] d2 d3 by blast
  have f1: "inputUrl sampleBrowser codeLink = ''https://www.amazon.com/dp/b000000004?tag=wish-20''"
    by code_simp
  have f2: "\<not> truthy (nearestDataAsin codeLink)" by code_simp
  have f3: "inputUrl sampleBrowser codeLink \<noteq> []" using f1 by simp
  have f4: "productPathMatch ''https://www.amazon.com/dp/b000000004?tag=wish-20'' = Some ''b000000004''"
    by code_simp
  have f5: "toUpperCase ''b000000004'' = ''B000000004''" by code_simp
  have "extractASIN sampleBrowser (FromElement codeLink) =
      extractASIN sampleBrowser (FromString (inputUrl sampleBrowser codeLink))"
    using t [where el = codeLink and v = "[]" and s = "[]" and m = "[]" and k = 0] f2 f3 by blast
  also have "\<dots> = toUpperCase ''b000000004''"
    unfolding f1
    using t [where s = "''https://www.amazon.com/dp/b000000004?tag=wish-20''" and m = "''b000000004''" and el = looseItem and v = "[]" and k = 0] f4
    by blast
  finally have r5: "extractASIN sampleBrowser (FromElement codeLink) = ''B000000004''"
    using f5 by simp
  have g1: "productPathMatch ''https://www.amazon.com/item?asin=b000000003&ref=wl'' = None"
    by code_simp
  have g2: "asinParamMatch ''https://www.amazon.com/item?asin=b000000003&ref=wl'' = Some ''b000000003''"
    by code_simp
  have g3: "toUpperCase ''b000000003'' = ''B000000003''" by code_simp
  have "extractASIN sampleBrowser (FromString ''https://www.amazon.com/item?asin=b000000003&ref=wl'') =
      toUpperCase ''b000000003''"
    using t [where s = "''https://www.amazon.com/item?asin=b000000003&ref=wl''" and m = "''b000000003''" and el = looseItem and v = "[]" and k = 0]
      g1 g2 by blast
  then have r6: "extractASIN sampleBrowser (FromString ''https://www.amazon.com/item?asin=b000000003&ref=wl'') =
      ''B000000003''"
    using g3 by simp
  have h1: "productPathMatch ''order 1234567890 shipped'' = None" by code_simp
  have h2: "asinParamMatch ''order 1234567890 shipped'' = None" by code_simp
  have h3: "bareTokenAt ''order 1234567890 shipped'' 6" by code_simp
  have "list_all (\<lambda>j. \<not> bareTokenAt ''order 1234567890 shipped'' j) [0..<6]" by code_simp
  then have h4: "\<forall>j<6. \<not> bareTokenAt ''order 1234567890 shipped'' j"
    unfolding list_all_iff by auto
  have h5: "take 10 (drop 6 ''order 1234567890 shipped'') = ''1234567890''" by code_simp
  have h6: "''order 1234567890 shipped'' ! 6 \<in> set ''B0123456789A''" by code_simp
  have h7: "pathTokenMatch ''order 1234567890 shipped'' = Some (take 10 (drop 6 ''order 1234567890 shipped''))
      \<and> extractASIN sampleBrowser (FromString ''order 1234567890 shipped'') =
          (if ''order 1234567890 shipped'' ! 6 \<in> set ''B0123456789A''
           then take 10 (drop 6 ''order 1234567890 shipped'') else [])"
    using t [where s = "''order 1234567890 shipped''" and k = 6 and el = looseItem and v = "[]" and m = "[]"] h1 h2 h3 h4 by blast
  have r7: "pathTokenMatch ''order 1234567890 shipped'' = Some ''1234567890''"
    using h7 h5 by simp
  have r8: "extractASIN sampleBrowser (FromString ''order 1234567890 shipped'') = ''1234567890''"
    using h7 h5 h6 by simp
  have i1: "productPathMatch ''ZZZZZZZZZZ B000000001'' = None" by code_simp
  have i2: "asinParamMatch ''ZZZZZZZZZZ B000000001'' = None" by code_simp
  have i3: "bareTokenAt ''ZZZZZZZZZZ B000000001'' 0" by code_simp
  have i4: "\<forall>j<0::nat. \<not> bareTokenAt ''ZZZZZZZZZZ B000000001'' j" by simp
  have i5: "take 10 (drop 0 ''ZZZZZZZZZZ B000000001'') = ''ZZZZZZZZZZ''" by code_simp
  have i6: "''ZZZZZZZZZZ B000000001'' ! 0 \<notin> set ''B0123456789A''" by code_simp
  have i7: "pathTokenMatch ''ZZZZZZZZZZ B000000001'' = Some (take 10 (drop 0 ''ZZZZZZZZZZ B000000001''))
      \<and> extractASIN sampleBrowser (FromString ''ZZZZZZZZZZ B000000001'') =
          (if ''ZZZZZZZZZZ B000000001'' ! 0 \<in> set ''B0123456789A''
           then take 10 (drop 0 ''ZZZZZZZZZZ B000000001'') else [])"
    using t [where s = "''ZZZZZZZZZZ B000000001''" and k = 0 and el = looseItem and v = "[]" and m = "[]"] i1 i2 i3 i4 by blast
  have r9: "pathTokenMatch ''ZZZZZZZZZZ B000000001'' = Some ''ZZZZZZZZZZ''"
    using i7 i5 by simp
  have r10: "extractASIN sampleBrowser (FromString ''ZZZZZZZZZZ B000000001'') = []"
    using i7 i6 by simp
  have j1: "productPathMatch ''wish list'' = None" by code_simp
  have j2: "asinParamMatch ''wish list'' = None" by code_simp
  have j3: "\<forall>k. \<not> bareTokenAt ''wish list'' k"
  proof (intro allI notI)
    fix k
    assume "bareTokenAt ''wish list'' k"
    then have "k + 10 \<le> length ''wish list''" unfolding bareTokenAt_def by blast
    then show False by simp
  qed
  have "productPathMatch ''wish list'' = None \<and> asinParamMatch ''wish list'' = None
        \<and> (\<forall>k. \<not> bareTokenAt ''wish list'' k)
      \<longrightarrow> extractASIN sampleBrowser (FromString ''wish list'') = []"
    using t [where s = "''wish list''" and el = looseItem and v = "[]" and m = "[]" and k = 0] by (elim conjE)
  then have r11: "extractASIN sampleBrowser (FromString ''wish list'') = []"
    using j1 j2 j3 by simp
  have r12: "extractASINFromElement sampleBrowser looseItem = []"
    using t [where el = looseItem and v = "[]" and s = "[]" and m = "[]" and k = 0] by (elim conjE)
  show ?thesis
    using r1 a2 r2 b3 r3 c1 c3 r4 d1 d2 r5 f1 r6 r7 r8 r9 r10 r11 r12 by blast
qed

text \<open>
  Claim C10 as stated fails on its second part: a bare token that begins with B is
  not accepted anywhere in the string. In \<^verbatim>\<open>ZZZZZZZZZZ B000000001\<close> the token
  \<^verbatim>\<open>B000000001\<close> stands at position 11 between a space and the end, and in
  \<^verbatim>\<open>https://example.com/TRACKING01/B000000001\<close> at position 31 between a slash and
  the end; the pattern stops at the bare token to its left, which begins with Z or T,
  and the result is the empty string.
\<close>

theorem extractASIN_token_counterexample:
  "bareTokenAt ''ZZZZZZZZZZ B000000001'' 11
   \<and> take 10 (drop 11 ''ZZZZZZZZZZ B000000001'') = ''B000000001''
   \<and> pathTokenMatch ''ZZZZZZZZZZ B000000001'' = Some ''ZZZZZZZZZZ''
   \<and> extractASIN sampleBrowser (FromString ''ZZZZZZZZZZ B000000001'') = []
   \<and> bareTokenAt ''https://example.com/TRACKING01/B000000001'' 31
   \<and> take 10 (drop 31 ''https://example.com/TRACKING01/B000000001'') = ''B000000001''
   \<and> pathTokenMatch ''https://example.com/TRACKING01/B000000001'' = Some ''TRACKING01''
   \<and> extractASIN sampleBrowser (FromString ''https://example.com/TRACKING01/B000000001'') = []"
  by code_simp

section \<open>CSV export: the theorems\<close>

lemma decodeQuoted_escape:
  "rest = [] \<or> hd rest \<noteq> dquote \<Longrightarrow>
   decodeQuoted (replaceAll dquote [dquote, dquote] s @ dquote # rest) = Some (s, rest)"
proof (induction s)
  case Nil
  then show ?case by (cases rest) (auto simp: replaceAll_def)
next
  case (Cons x xs)
  show ?case
  proof (cases "x = dquote")
    case True
    with Cons show ?thesis by (simp add: replaceAll_def)
  next
    case False
    obtain d ds where e: "replaceAll dquote [dquote, dquote] xs @ dquote # rest = d # ds"
      by (cases "replaceAll dquote [dquote, dquote] xs @ dquote # rest") auto
    have "replaceAll dquote [dquote, dquote] (x # xs) @ dquote # rest = x # d # ds"
      using False e by (simp add: replaceAll_def)
    moreover have "decodeQuoted (d # ds) = Some (xs, rest)"
      using Cons e by simp
    ultimately show ?thesis using False by simp
  qed
qed

lemma decodeField_escape:
  assumes r: "rest = [] \<or> hd rest = CHR '','' \<or> hd rest = newline"
    and s: "CHR '','' \<in> set s \<or> dquote \<in> set s \<or> newline \<in> set s"
  shows "decodeField (escapeCSVField (Some s) @ rest) = Some (s, rest)"
proof -
  have q: "rest = [] \<or> hd rest \<noteq> dquote"
    using r by (auto simp: dquote_def newline_def)
  have "escapeCSVField (Some s) = dquote # replaceAll dquote [dquote, dquote] s @ [dquote]"
    using s by (simp add: escapeCSVField_def includesStr_single)
  then show ?thesis
    using decodeQuoted_escape [OF q, of s] r by (simp add: decodeField_def)
qed

lemma join_headers: "join '','' headers = ''Item Name,ASIN,Price,URL,Image URL''"
  by (simp add: headers_def)

lemma csvRow_join:
  "csvRow item = join '','' (map (\<lambda>f. escapeCSVField (Some f))
       [name item, asin item, price item, url item, image item])"
  by (simp add: csvRow_def Let_def)

text \<open>
  Claim C9. A non-empty export downloads the header row
  \<^verbatim>\<open>Item Name,ASIN,Price,URL,Image URL\<close> followed by one row per record, the rows
  joined by line breaks and each row its five escaped fields joined by commas. A field
  holding a comma, a quote or a line break is wrapped in quotes with its quotes doubled,
  and standard CSV decoding of the escaped field, whatever follows it in the row,
  gives the field back; any other field is written as it is.
\<close>

theorem exportToCSV_rows_and_escaping:
  "(recs \<noteq> [] \<longrightarrow>
      exportToCSV today recs =
        Download (''amazon-wishlist-'' @ today @ ''.csv'')
          (join [newline] (''Item Name,ASIN,Price,URL,Image URL'' # map csvRow recs)))
   \<and> csvRow item = join '','' (map (\<lambda>f. escapeCSVField (Some f))
          [name item, asin item, price item, url item, image item])
   \<and> (CHR '','' \<in> set s \<or> dquote \<in> set s \<or> newline \<in> set s \<longrightarrow>
        escapeCSVField (Some s) = [dquote] @ replaceAll dquote [dquote, dquote] s @ [dquote]
        \<and> (rest = [] \<or> hd rest = CHR '','' \<or> hd rest = newline \<longrightarrow>
             decodeField (escapeCSVField (Some s) @ rest) = Some (s, rest)))
   \<and> (\<not> (CHR '','' \<in> set s \<or> dquote \<in> set s \<or> newline \<in> set s) \<longrightarrow>
        escapeCSVField (Some s) = s)"
proof -
  have a: "recs \<noteq> [] \<longrightarrow>
      exportToCSV today recs =
        Download (''amazon-wishlist-'' @ today @ ''.csv'')
          (join [newline] (''Item Name,ASIN,Price,URL,Image URL'' # map csvRow recs))"
    by (simp add: exportToCSV_def Let_def join_headers)
  have c: "CHR '','' \<in> set s \<or> dquote \<in> set s \<or> newline \<in> set s \<longrightarrow>
        escapeCSVField (Some s) = [dquote] @ replaceAll dquote [dquote, dquote] s @ [dquote]"
    by (simp add: escapeCSVField_def includesStr_single)
  have d: "\<not> (CHR '','' \<in> set s \<or> dquote \<in> set s \<or> newline \<in> set s) \<longrightarrow>
        escapeCSVField (Some s) = s"
    by (simp add: escapeCSVField_def includesStr_single)
  show ?thesis using a c d csvRow_join decodeField_escape by blast
qed

theorem exportToCSV_rows_and_escaping_witness:
  "exportToCSV ''2024-05-01'' [sampleItem] =
     Download ''amazon-wishlist-2024-05-01.csv''
       (''Item Name,ASIN,Price,URL,Image URL'' @ [newline] @ csvRow sampleItem)
   \<and> csvRow sampleItem =
       [dquote] @ ''Tea, '' @ [dquote, dquote] @ ''green'' @ [dquote, dquote, newline] @ ''loose'' @ [dquote]
         @ '',B00EXAMPLE,$1234.50,https://www.amazon.com/dp/B00EXAMPLE,''
   \<and> escapeCSVField (Some sampleField) =
       [dquote] @ ''Tea, '' @ [dquote, dquote] @ ''green'' @ [dquote, dquote, newline] @ ''loose'' @ [dquote]
   \<and> decodeField (escapeCSVField (Some sampleField) @ '',B00EXAMPLE'') = Some (sampleField, '',B00EXAMPLE'')
   \<and> escapeCSVField (Some ''B00EXAMPLE'') = ''B00EXAMPLE''"
  using exportToCSV_rows_and_escaping [of "[sampleItem]" "''2024-05-01''" sampleItem sampleField "'',B00EXAMPLE''"]
  by (simp add: sampleItem_def sampleField_def replaceAll_def dquote_def newline_def escapeCSVField_def startsWith_def)

section \<open>The collector: the theorems\<close>

lemma extractEach_new:
  "extractEach br es seen = (new, seen') \<Longrightarrow>
     distinct (map asin new) \<and> set (map asin new) \<inter> seen = {}
     \<and> seen' = seen \<union> set (map asin new)"
proof (induction es arbitrary: seen new seen')
  case Nil
  then show ?case by simp
next
  case (Cons e es)
  show ?case
  proof (cases "extractItemData br e")
    case None
    then show ?thesis using Cons by simp
  next
    case (Some item)
    show ?thesis
    proof (cases "asin item \<noteq> [] \<and> asin item \<notin> seen")
      case True
      obtain new1 seen1 where r: "extractEach br es (insert (asin item) seen) = (new1, seen1)"
        by (cases "extractEach br es (insert (asin item) seen)") auto
      then have n: "new = item # new1" "seen' = seen1"
        using Cons.prems Some True by auto
      from Cons.IH [OF r] show ?thesis using n True by auto
    next
      case False
      then have "extractEach br es seen = (new, seen')"
        using Cons.prems Some by auto
      from Cons.IH [OF this] show ?thesis .
    qed
  qed
qed

lemma extractEach_seen:
  "extractEach br es seen = (new, seen') \<Longrightarrow>
     (\<forall>e \<in> set es. \<forall>item. extractItemData br e = Some item \<longrightarrow>
        asin item = [] \<or> asin item \<in> seen')"
proof (induction es arbitrary: seen new seen')
  case Nil
  then show ?case by simp
next
  case (Cons e es)
  obtain new1 seen1 where r: "extractEach br es seen = (new1, seen1)"
    by (cases "extractEach br es seen") auto
  show ?case
  proof (cases "extractItemData br e")
    case None
    then show ?thesis using Cons by auto
  next
    case (Some item)
    show ?thesis
    proof (cases "asin item \<noteq> [] \<and> asin item \<notin> seen")
      case True
      obtain new2 seen2 where r2: "extractEach br es (insert (asin item) seen) = (new2, seen2)"
        by (cases "extractEach br es (insert (asin item) seen)") auto
      then have n: "seen' = seen2" using Cons.prems Some True by auto
      have "asin item \<in> seen2" using extractEach_new [OF r2] by auto
      then show ?thesis using Cons.IH [OF r2] n Some by auto
    next
      case False
      then have e: "extractEach br es seen = (new, seen')"
        using Cons.prems Some by auto
      have "seen \<subseteq> seen'" using extractEach_new [OF e] by auto
      then show ?thesis using Cons.IH [OF e] False Some by auto
    qed
  qed
qed

lemma extractEach_noop:
  "(\<forall>e \<in> set es. \<forall>item. extractItemData br e = Some item \<longrightarrow>
        asin item = [] \<or> asin item \<in> S) \<Longrightarrow>
   extractEach br es S = ([], S)"
  by (induction es) (auto split: option.splits)

lemma extractItems_second_pass:
  assumes "extractItems br d seen = (new, seen')" and "seen' \<subseteq> S"
  shows "extractItems br d S = ([], S)"
  unfolding extractItems_def
  using extractEach_seen [OF assms(1) [unfolded extractItems_def]] assms(2)
  by (intro extractEach_noop) blast

lemma scrollStep_invariant:
  assumes "runInvariant run"
  shows "runInvariant (scrollStep br pages run)"
proof -
  obtain new seen' where e: "extractItems br (pages (reveals run + 1)) (seenIds run) = (new, seen')"
    by (cases "extractItems br (pages (reveals run + 1)) (seenIds run)") auto
  have s: "scrollStep br pages run =
      run\<lparr>items := items run @ new, seenIds := seen',
          previousItemCount := length (items run), reveals := reveals run + 1\<rparr>"
    using e by (simp add: scrollStep_def Let_def)
  from extractEach_new [OF e [unfolded extractItems_def]] assms
  show ?thesis
    unfolding s by (auto simp: runInvariant_def)
qed

lemma scrollStep_fields:
  "scrollAttempts (scrollStep br pages run) = scrollAttempts run"
  "reveals (scrollStep br pages run) = reveals run + 1"
  "previousItemCount (scrollStep br pages run) = length (items run)"
  by (simp_all add: scrollStep_def Let_def split: prod.splits)

lemma scrollLoop_invariant:
  "runInvariant run \<Longrightarrow> runInvariant (scrollLoop br pages run)"
proof (induction br pages run rule: scrollLoop.induct)
  case (1 br pages run)
  show ?case
  proof (cases "scrollAttempts run < maxScrollAttempts")
    case False
    then show ?thesis using "1.prems" by (subst scrollLoop.simps) simp
  next
    case True
    define run' where "run' = scrollStep br pages run"
    have inv: "runInvariant run'"
      unfolding run'_def using "1.prems" by (rule scrollStep_invariant)
    show ?thesis
    proof (cases "length (items run') = previousItemCount run'")
      case True
      then show ?thesis
        using \<open>scrollAttempts run < maxScrollAttempts\<close> inv
        by (subst scrollLoop.simps) (simp add: run'_def Let_def)
    next
      case False
      have "runInvariant (run'\<lparr>scrollAttempts := scrollAttempts run' + 1\<rparr>)"
        using inv by (simp add: runInvariant_def)
      then have "runInvariant (scrollLoop br pages (run'\<lparr>scrollAttempts := scrollAttempts run' + 1\<rparr>))"
        using "1.IH" [OF True run'_def False] by simp
      then show ?thesis
        using True False
        by (subst scrollLoop.simps) (simp add: run'_def Let_def)
    qed
  qed
qed

lemma scrollLoop_reveals:
  "reveals run = scrollAttempts run \<Longrightarrow> scrollAttempts run \<le> maxScrollAttempts \<Longrightarrow>
   reveals (scrollLoop br pages run) \<le> maxScrollAttempts"
proof (induction br pages run rule: scrollLoop.induct)
  case (1 br pages run)
  show ?case
  proof (cases "scrollAttempts run < maxScrollAttempts")
    case False
    then show ?thesis using "1.prems" by (subst scrollLoop.simps) simp
  next
    case True
    define run' where "run' = scrollStep br pages run"
    show ?thesis
    proof (cases "length (items run') = previousItemCount run'")
      case True
      then show ?thesis
        using \<open>scrollAttempts run < maxScrollAttempts\<close> "1.prems"
        by (subst scrollLoop.simps) (simp add: run'_def Let_def scrollStep_fields)
    next
      case False
      have "reveals (scrollLoop br pages (run'\<lparr>scrollAttempts := scrollAttempts run' + 1\<rparr>))
              \<le> maxScrollAttempts"
        using "1.IH" [OF True run'_def False] "1.prems" True
        by (simp add: run'_def scrollStep_fields)
      then show ?thesis
        using True False
        by (subst scrollLoop.simps) (simp add: run'_def Let_def)
    qed
  qed
qed

lemma collect_invariant: "runInvariant (collect br pages)"
proof -
  obtain new seen' where e: "extractItems br (pages 0) {} = (new, seen')"
    by (cases "extractItems br (pages 0) {}") auto
  have "runInvariant \<lparr>items = new, seenIds = seen', previousItemCount = 0,
            scrollAttempts = 0, reveals = 0\<rparr>"
    using extractEach_new [OF e [unfolded extractItems_def]] by (simp add: runInvariant_def)
  then show ?thesis
    by (simp add: collect_def e scrollLoop_invariant)
qed

lemma collect_reveals: "reveals (collect br pages) \<le> maxScrollAttempts"
  by (simp add: collect_def scrollLoop_reveals split: prod.splits)

text \<open>
  Claim C1. The records that \<^verbatim>\<open>scrapeWishlist\<close> returns carry pairwise different
  identifiers, and so do the records collected in every run, whatever it ends with.
  One pass of the locator and extractor adds records with new, pairwise different
  identifiers and marks them seen; a pass over the same tree with those identifiers
  seen (or more) adds no record and leaves the set as it is.
\<close>

theorem scrapeWishlist_no_duplicates:
  "(settled (scrapeWishlist br pages) = Inr recs \<longrightarrow> distinct (map asin recs))
   \<and> distinct (map asin (items (collect br pages)))
   \<and> set (map asin (items (collect br pages))) \<subseteq> seenIds (collect br pages)
   \<and> (extractItems br d seen = (new, seen') \<longrightarrow>
        distinct (map asin new) \<and> set (map asin new) \<inter> seen = {}
        \<and> seen' = seen \<union> set (map asin new))
   \<and> (extractItems br d seen = (new, seen') \<and> seen' \<subseteq> S \<longrightarrow>
        extractItems br d S = ([], S))"
proof -
  have inv: "distinct (map asin (items (collect br pages)))
      \<and> set (map asin (items (collect br pages))) \<subseteq> seenIds (collect br pages)"
    using collect_invariant [of br pages] by (simp add: runInvariant_def)
  have a: "settled (scrapeWishlist br pages) = Inr recs \<longrightarrow> distinct (map asin recs)"
    using inv by (auto simp: scrapeWishlist_def Let_def split: if_splits)
  have b: "extractItems br d seen = (new, seen') \<longrightarrow>
        distinct (map asin new) \<and> set (map asin new) \<inter> seen = {}
        \<and> seen' = seen \<union> set (map asin new)"
    using extractEach_new [of br "findWishlistItems d" seen new seen']
    by (simp add: extractItems_def)
  show ?thesis
    using inv a b extractItems_second_pass [of br d seen new seen' S] by blast
qed

theorem scrapeWishlist_no_duplicates_witness:
  "map asin (fst (extractItems sampleBrowser (steadyPages 0) {})) =
       [''B000000001'', ''B000000002'', ''B000000003'']
   \<and> distinct [''B000000001'', ''B000000002'', ''B000000003'']
   \<and> snd (extractItems sampleBrowser (steadyPages 0) {}) =
       {''B000000001'', ''B000000002'', ''B000000003''}
   \<and> extractItems sampleBrowser (steadyPages 1)
         {''B000000001'', ''B000000002'', ''B000000003''} =
       ([], {''B000000001'', ''B000000002'', ''B000000003''})
   \<and> map_sum id (map asin) (settled (scrapeWishlist sampleBrowser steadyPages)) =
       Inr [''B000000001'', ''B000000002'', ''B000000003'']"
proof -
  define recs where "recs = fst (extractItems sampleBrowser (steadyPages 0) {})"
  define ids where "ids = {''B000000001'', ''B000000002'', ''B000000003''}"
  have a: "map asin recs = [''B000000001'', ''B000000002'', ''B000000003'']"
    unfolding recs_def by code_simp
  have b: "snd (extractItems sampleBrowser (steadyPages 0) {}) = ids"
    unfolding ids_def by code_simp
  have e: "extractItems sampleBrowser (steadyPages 0) {} = (recs, ids)"
    using b by (simp add: recs_def prod_eq_iff)
  have p: "steadyPages 1 = steadyPages 0" by (simp add: steadyPages_def)
  have "extractItems sampleBrowser (steadyPages 0) ids = ([], ids)"
    using scrapeWishlist_no_duplicates [of sampleBrowser steadyPages _ "steadyPages 0" "{}" recs ids ids] e
    by blast
  then have c: "extractItems sampleBrowser (steadyPages 1) ids = ([], ids)"
    using p by simp
  have d: "distinct (map asin recs)"
    using scrapeWishlist_no_duplicates [of sampleBrowser steadyPages _ "steadyPages 0" "{}" recs ids ids] e
    by blast
  have f: "map_sum id (map asin) (settled (scrapeWishlist sampleBrowser steadyPages)) =
       Inr [''B000000001'', ''B000000002'', ''B000000003'']"
    by code_simp
  show ?thesis
    using a b c d f unfolding recs_def ids_def by simp
qed

text \<open>
  Claim C2. The loop is a total function of the browser, the sequence of documents and
  the run, and whatever the sequence of documents is, at most ten scrolls are performed
  before the collector settles.
\<close>

theorem scrapeWishlist_reveal_bound:
  "revealCycles (scrapeWishlist br pages) \<le> 10
   \<and> reveals (collect br pages) \<le> 10"
  using collect_reveals [of br pages]
  by (simp add: scrapeWishlist_def Let_def maxScrollAttempts_def)

text \<open>
  \<open>growingPages\<close> shows a new product after every scroll: the collector stops after
  the tenth scroll.
\<close>

theorem scrapeWishlist_reveal_bound_witness:
  "revealCycles (scrapeWishlist sampleBrowser growingPages) = 10
   \<and> reveals (collect sampleBrowser growingPages) \<le> 10"
proof -
  have a: "revealCycles (scrapeWishlist sampleBrowser growingPages) = 10" by code_simp
  show ?thesis
    using scrapeWishlist_reveal_bound [of sampleBrowser growingPages] a by simp
qed

text \<open>
  Claim C3. The collector settles in exactly one way, decided in this order: a page
  that is not a wishlist page fails with \<open>NotAWishlistPage\<close> before any scroll; a
  private one fails with \<open>PrivateOrInaccessible\<close> before any scroll; otherwise the
  run is made, and it fails with \<open>NoItemsFound\<close> exactly when the loop ends with no
  record collected, and returns the collected records, at least one, otherwise.
\<close>

theorem scrapeWishlist_outcome:
  "(\<not> isWishlistPage (pages 0) \<longrightarrow>
      scrapeWishlist br pages = \<lparr>settled = Inl NotAWishlistPage, revealCycles = 0\<rparr>)
   \<and> (isWishlistPage (pages 0) \<and> isPrivateWishlist br (pages 0) \<longrightarrow>
      scrapeWishlist br pages = \<lparr>settled = Inl PrivateOrInaccessible, revealCycles = 0\<rparr>)
   \<and> (isWishlistPage (pages 0) \<and> \<not> isPrivateWishlist br (pages 0)
        \<and> items (collect br pages) = [] \<longrightarrow>
      scrapeWishlist br pages =
        \<lparr>settled = Inl NoItemsFound, revealCycles = reveals (collect br pages)\<rparr>)
   \<and> (isWishlistPage (pages 0) \<and> \<not> isPrivateWishlist br (pages 0)
        \<and> items (collect br pages) \<noteq> [] \<longrightarrow>
      scrapeWishlist br pages =
        \<lparr>settled = Inr (items (collect br pages)), revealCycles = reveals (collect br pages)\<rparr>)
   \<and> (settled (scrapeWishlist br pages) = Inl NoItemsFound \<longleftrightarrow>
        isWishlistPage (pages 0) \<and> \<not> isPrivateWishlist br (pages 0)
        \<and> items (collect br pages) = [])
   \<and> (settled (scrapeWishlist br pages) = Inr recs \<longrightarrow> recs \<noteq> [])"
  by (auto simp: scrapeWishlist_def Let_def)

theorem scrapeWishlist_outcome_witness:
  "scrapeWishlist sampleBrowser cartPages = \<lparr>settled = Inl NotAWishlistPage, revealCycles = 0\<rparr>
   \<and> scrapeWishlist sampleBrowser (\<lambda>k. privateDoc) =
       \<lparr>settled = Inl PrivateOrInaccessible, revealCycles = 0\<rparr>
   \<and> scrapeWishlist sampleBrowser stalePages = \<lparr>settled = Inl NoItemsFound, revealCycles = 1\<rparr>
   \<and> map_sum id (map asin) (settled (scrapeWishlist sampleBrowser latePages)) =
       Inr [''B000000001'', ''B000000002'']
   \<and> revealCycles (scrapeWishlist sampleBrowser latePages) = 2"
proof -
  have a: "\<not> isWishlistPage (cartPages 0)" by code_simp
  have b: "isWishlistPage privateDoc \<and> isPrivateWishlist sampleBrowser privateDoc" by code_simp
  have c: "isWishlistPage (stalePages 0) \<and> \<not> isPrivateWishlist sampleBrowser (stalePages 0)"
    by code_simp
  have c': "items (collect sampleBrowser stalePages) = []" by code_simp
  have c'': "reveals (collect sampleBrowser stalePages) = 1" by code_simp
  have d: "isWishlistPage (latePages 0) \<and> \<not> isPrivateWishlist sampleBrowser (latePages 0)"
    by code_simp
  have d': "map asin (items (collect sampleBrowser latePages)) = [''B000000001'', ''B000000002'']"
    by code_simp
  have d'': "reveals (collect sampleBrowser latePages) = 2" by code_simp
  have ne: "items (collect sampleBrowser latePages) \<noteq> []" using d' by auto
  have r1: "scrapeWishlist sampleBrowser cartPages =
      \<lparr>settled = Inl NotAWishlistPage, revealCycles = 0\<rparr>"
    using scrapeWishlist_outcome [of cartPages sampleBrowser] a by blast
  have r2: "scrapeWishlist sampleBrowser (\<lambda>k. privateDoc) =
      \<lparr>settled = Inl PrivateOrInaccessible, revealCycles = 0\<rparr>"
    using scrapeWishlist_outcome [of "\<lambda>k. privateDoc" sampleBrowser] b by blast
  have r3: "scrapeWishlist sampleBrowser stalePages =
      \<lparr>settled = Inl NoItemsFound, revealCycles = reveals (collect sampleBrowser stalePages)\<rparr>"
    using scrapeWishlist_outcome [of stalePages sampleBrowser] c c' by blast
  have r4: "scrapeWishlist sampleBrowser latePages =
      \<lparr>settled = Inr (items (collect sampleBrowser latePages)),
       revealCycles = reveals (collect sampleBrowser latePages)\<rparr>"
    using scrapeWishlist_outcome [of latePages sampleBrowser] d ne by blast
  show ?thesis
    using r1 r2 r3 r4 c'' d' d'' by simp
qed

end
